theory Spec2Isabelle
  imports Main
begin

section \<open>The runtime the script talks to\<close>

text \<open>
  The script \<^verbatim>\<open>index.js\<close> reads the process environment and two JSON files, matches
  commit messages against a regular expression and spawns \<^verbatim>\<open>git\<close>, \<^verbatim>\<open>yarn\<close> and
  \<^verbatim>\<open>npm\<close>. Promises are awaited one after the other, so the model is sequential:
  a rejected promise or a thrown exception is the left injection of a sum, and the
  console output and the list of spawned commands are threaded through as a state.

  Strings are \<^typ>\<open>string\<close>; a value that may be \<^verbatim>\<open>undefined\<close> is an \<^typ>\<open>'a option\<close>.
\<close>

subsection \<open>Errors\<close>

text \<open>
  \<^verbatim>\<open>class ExitError extends Error { constructor(code) { super(...); this.code = code; } }\<close>
  has the exit code as its only field (\<open>None\<close> is the \<^verbatim>\<open>null\<close> code Node reports for
  a child ended by a signal). \<^verbatim>\<open>NeutralExitError\<close> and the plain \<^verbatim>\<open>Error\<close> carry their
  message. \<open>RuntimeError\<close> stands for what the runtime itself throws: the error of
  \<^verbatim>\<open>readFile\<close> and the \<^verbatim>\<open>SyntaxError\<close> of \<^verbatim>\<open>JSON.parse\<close> and of the \<^verbatim>\<open>RegExp\<close>
  constructor.
\<close>

datatype js_error =
    ExitError "nat option"
  | NeutralExitError string
  | PlainError string
  | RuntimeError string

definition digit_char :: "nat \<Rightarrow> char" where
  "digit_char d = ''0123456789'' ! d"

function show_nat :: "nat \<Rightarrow> string" where
  "show_nat n = (if n < 10 then [digit_char n] else show_nat (n div 10) @ [digit_char (n mod 10)])"
  by pat_completeness auto
termination
  by (relation "measure (\<lambda>n. n)") auto

declare show_nat.simps [simp del]

definition show_code :: "nat option \<Rightarrow> string" where
  "show_code c = (case c of None \<Rightarrow> ''null'' | Some n \<Rightarrow> show_nat n)"

fun error_message :: "js_error \<Rightarrow> string" where
  "error_message (ExitError c) = ''command failed with code '' @ show_code c"
| "error_message (NeutralExitError m) = m"
| "error_message (PlainError m) = m"
| "error_message (RuntimeError m) = m"

subsection \<open>Documents\<close>

text \<open>
  The event payload is a push event: it has the shape
  \<^verbatim>\<open>{ref, repository:{owner:{name,email}}, commits:[{message}]}\<close> with strings at the
  leaves. The manifest is \<^verbatim>\<open>null\<close> (\<open>None\<close> below) or an object whose \<^verbatim>\<open>version\<close> is a
  string or is absent or \<^verbatim>\<open>null\<close> (\<open>None\<close>). Documents of another shape, on which the
  script would stop with a \<^verbatim>\<open>TypeError\<close>, are not values of these types.
\<close>

record author =
  name :: string
  email :: string

record repository_info =
  owner :: author

record commit =
  message :: string

record event =
  ref :: string
  repository :: repository_info
  commits :: "commit list"

record package =
  version :: "string option"

subsection \<open>Subprocesses, console, state\<close>

record invocation =
  inv_cwd :: string
  inv_command :: string
  inv_args :: "string list"

text \<open>
  What a spawned child does: the \<^verbatim>\<open>error\<close> event (the launch failed), or the
  \<^verbatim>\<open>exit\<close> event with its code and everything the child wrote to standard error.
\<close>

datatype proc_outcome = LaunchError | Exit "nat option" string

text \<open>
  A line of console output: \<^verbatim>\<open>console.log\<close> of a text, \<^verbatim>\<open>console.log\<close> of an error
  object, and \<^verbatim>\<open>console.error\<close> of a text followed by an error object.
\<close>

datatype console_line = Log string | LogObject js_error | ErrorLine string js_error

record state =
  console :: "console_line list"
  spawned :: "invocation list"
  exitCode :: nat

type_synonym 'a result = "(js_error + 'a) \<times> state"

text \<open>
  The library functions of Node the script calls, as parameters of the model.
  \<open>readFile\<close> returns the text of a file, and \<^verbatim>\<open>JSON.parse\<close> is taken at the two
  document types, as \<open>JSON_parse_event\<close> and \<open>JSON_parse_package\<close>; all three return
  the runtime's error message on the left. \<open>RegExp\<close> compiles a pattern (the message
  of the \<^verbatim>\<open>SyntaxError\<close> on the left) into the function that \<^verbatim>\<open>String.prototype.match\<close>
  applies to a text: \<open>None\<close> is \<^verbatim>\<open>null\<close>, otherwise the match array, whose entry 0 is
  the matched text and whose entry \<open>i\<close> is capture group \<open>i\<close> (\<open>None\<close> for a group
  that took no part). \<open>path_join\<close> is \<^verbatim>\<open>path.join\<close>. \<open>spawn\<close> answers an invocation,
  given the invocations made before it.
\<close>

record runtime =
  readFile :: "string \<Rightarrow> string + string"
  JSON_parse_event :: "string \<Rightarrow> string + event"
  JSON_parse_package :: "string \<Rightarrow> string + package option"
  RegExp :: "string \<Rightarrow> string + (string \<Rightarrow> string option list option)"
  path_join :: "string \<Rightarrow> string \<Rightarrow> string"
  spawn :: "invocation list \<Rightarrow> invocation \<Rightarrow> proc_outcome"

definition console_log :: "string \<Rightarrow> state \<Rightarrow> state" where
  "console_log t s = s\<lparr>console := console s @ [Log t]\<rparr>"

definition console_error :: "string \<Rightarrow> js_error \<Rightarrow> state \<Rightarrow> state" where
  "console_error t e s = s\<lparr>console := console s @ [ErrorLine t e]\<rparr>"

definition and_then :: "'a result \<Rightarrow> ('a \<Rightarrow> state \<Rightarrow> 'b result) \<Rightarrow> 'b result" where
  "and_then m f = (case m of (Inl e, s) \<Rightarrow> (Inl e, s) | (Inr x, s) \<Rightarrow> f x s)"

subsection \<open>String operations of JavaScript\<close>

text \<open>\<^verbatim>\<open>a || b\<close> on a string that may be undefined: the empty string is falsy too.\<close>

definition js_or :: "string option \<Rightarrow> string \<Rightarrow> string" where
  "js_or a b = (case a of None \<Rightarrow> b | Some v \<Rightarrow> if v = [] then b else v)"

fun starts_with :: "string \<Rightarrow> string \<Rightarrow> bool" where
  "starts_with s [] = True"
| "starts_with [] (p # ps) = False"
| "starts_with (c # cs) (p # ps) = (c = p \<and> starts_with cs ps)"

text \<open>\<^verbatim>\<open>str.includes(p)\<close>.\<close>

fun str_includes :: "string \<Rightarrow> string \<Rightarrow> bool" where
  "str_includes [] p = (p = [])"
| "str_includes (c # cs) p = (starts_with (c # cs) p \<or> str_includes cs p)"

text \<open>\<^verbatim>\<open>args.join(" ")\<close>.\<close>

fun join_space :: "string list \<Rightarrow> string" where
  "join_space [] = []"
| "join_space [a] = a"
| "join_space (a # b # bs) = a @ '' '' @ join_space (b # bs)"

text \<open>
  \<^verbatim>\<open>str.trim()\<close>: white space of the Latin-1 range (tab, line feed, vertical tab,
  form feed, carriage return, space, no-break space); the other Unicode spaces are
  outside \<^typ>\<open>char\<close>.
\<close>

definition is_space :: "char \<Rightarrow> bool" where
  "is_space c = (of_char c \<in> {9, 10, 11, 12, 13, 32, 160 :: nat})"

definition trim :: "string \<Rightarrow> string" where
  "trim t = rev (dropWhile is_space (rev (dropWhile is_space t)))"

text \<open>
  The replacement text of \<^verbatim>\<open>String.prototype.replace\<close> for a pattern without capture
  groups: \<^verbatim>\<open>$$\<close> is a dollar sign, \<^verbatim>\<open>$&\<close> the matched text, \<^verbatim>\<open>$`\<close> the text before
  the match and \<^verbatim>\<open>$'\<close> the text after it; every other character stands for itself.
\<close>

fun substitution :: "string \<Rightarrow> string \<Rightarrow> string \<Rightarrow> string \<Rightarrow> string" where
  "substitution matched pre post [] = []"
| "substitution matched pre post [c] = [c]"
| "substitution matched pre post (c # d # r) =
     (if c = CHR 0x24 \<and> d = CHR 0x24 then CHR 0x24 # substitution matched pre post r
      else if c = CHR 0x24 \<and> d = CHR 0x26 then matched @ substitution matched pre post r
      else if c = CHR 0x24 \<and> d = CHR 0x60 then pre @ substitution matched pre post r
      else if c = CHR 0x24 \<and> d = CHR 0x27 then post @ substitution matched pre post r
      else c # substitution matched pre post (d # r))"

text \<open>
  \<^verbatim>\<open>template.replace(/%s/g, value)\<close>: every occurrence of \<^verbatim>\<open>%s\<close>, found from left to
  right, is replaced; \<open>pre\<close> is the text already passed.
\<close>

fun replace_from :: "string \<Rightarrow> string \<Rightarrow> string \<Rightarrow> string" where
  "replace_from pre [] v = []"
| "replace_from pre [c] v = [c]"
| "replace_from pre (c # d # r) v =
     (if c = CHR ''%'' \<and> d = CHR ''s''
      then substitution ''%s'' pre r v @ replace_from (pre @ ''%s'') r v
      else c # replace_from (pre @ [c]) (d # r) v)"

definition replace_placeholder :: "string \<Rightarrow> string \<Rightarrow> string" where
  "replace_placeholder template v = replace_from [] template v"

section \<open>The script\<close>

subsection \<open>Configuration from the environment\<close>

text \<open>\<^verbatim>\<open>process.env[name] || process.env[`INPUT_${name}`]\<close>: an empty value is falsy.\<close>

definition getEnv :: "(string \<rightharpoonup> string) \<Rightarrow> string \<Rightarrow> string option" where
  "getEnv env nm =
     (case env nm of
        None \<Rightarrow> env (''INPUT_'' @ nm)
      | Some v \<Rightarrow> if v = [] then env (''INPUT_'' @ nm) else Some v)"

definition placeholderEnv :: "(string \<rightharpoonup> string) \<Rightarrow> string \<Rightarrow> string \<Rightarrow> js_error + string" where
  "placeholderEnv env nm defaultValue =
     (case getEnv env nm of
        None \<Rightarrow> Inr defaultValue
      | Some str \<Rightarrow>
          if str = [] then Inr defaultValue
          else if \<not> str_includes str ''%s''
            then Inl (PlainError (''missing placeholder in variable: '' @ nm))
          else Inr str)"

record config =
  commitPattern :: string
  tagName :: string
  tagMessage :: string
  tagAuthor :: author
  publishWith :: string

subsection \<open>Reading a JSON file\<close>

text \<open>
  \<open>readJson\<close> reads the file and hands the text to \<^verbatim>\<open>JSON.parse\<close>, here the view
  \<open>parse\<close> of it at the type of the document.
\<close>

definition readJson :: "runtime \<Rightarrow> (string \<Rightarrow> string + 'a) \<Rightarrow> string \<Rightarrow> js_error + 'a" where
  "readJson rt parse file =
     (case readFile rt file of
        Inl err \<Rightarrow> Inl (RuntimeError err)
      | Inr data \<Rightarrow>
          (case parse data of
             Inl err \<Rightarrow> Inl (RuntimeError err)
           | Inr doc \<Rightarrow> Inr doc))"

subsection \<open>Running a command\<close>

definition run :: "runtime \<Rightarrow> string \<Rightarrow> string \<Rightarrow> string list \<Rightarrow> state \<Rightarrow> bool result" where
  "run rt dir cmd as s =
     (let s1 = console_log (''Executing: '' @ cmd @ '' '' @ join_space as) s;
          call = \<lparr>inv_cwd = dir, inv_command = cmd, inv_args = as\<rparr>;
          s2 = s1\<lparr>spawned := spawned s1 @ [call]\<rparr>
      in case spawn rt (spawned s1) call of
           LaunchError \<Rightarrow> (Inl (PlainError (''command failed: '' @ cmd)), s2)
         | Exit code err \<Rightarrow>
             if code = Some 0 then (Inr True, s2)
             else
               (let stderr = trim err;
                    s3 = (if stderr \<noteq> []
                          then console_log stderr
                                 (console_log (''command failed with code '' @ show_code code) s2)
                          else s2)
                in (Inl (ExitError code), s3)))"

subsection \<open>The commit scan\<close>

text \<open>
  \<^verbatim>\<open>match[1]\<close>: an index past the end of the match array reads \<^verbatim>\<open>undefined\<close>.
\<close>

definition group1 :: "string option list \<Rightarrow> string option" where
  "group1 m = (if 1 < length m then m ! 1 else None)"

text \<open>
  \<^verbatim>\<open>commit.message.match(config.commitPattern)\<close> compiles the pattern, a string, at
  every call and throws when it is not a regular expression.
\<close>

fun checkCommit :: "runtime \<Rightarrow> config \<Rightarrow> commit list \<Rightarrow> string \<Rightarrow> state \<Rightarrow> bool result" where
  "checkCommit rt cfg [] ver s = (Inr False, s)"
| "checkCommit rt cfg (c # cs) ver s =
     (case RegExp rt (commitPattern cfg) of
        Inl err \<Rightarrow> (Inl (RuntimeError err), s)
      | Inr rx \<Rightarrow>
          (case rx (message c) of
             None \<Rightarrow> checkCommit rt cfg cs ver s
           | Some m \<Rightarrow>
               if group1 m = Some ver
               then (Inr True, console_log (''Found commit: '' @ message c) s)
               else checkCommit rt cfg cs ver s))"

subsection \<open>Tagging\<close>

definition createTag :: "runtime \<Rightarrow> string \<Rightarrow> config \<Rightarrow> string \<Rightarrow> state \<Rightarrow> unit result" where
  "createTag rt dir cfg ver s =
     (let tag = replace_placeholder (tagName cfg) ver;
          msg = replace_placeholder (tagMessage cfg) ver;
          checked =
            (case run rt dir ''git'' [''rev-parse'', ''-q'', ''--verify'', ''refs/tags/'' @ tag] s of
               (Inr b, s1) \<Rightarrow> (Inr b, s1)
             | (Inl e, s1) \<Rightarrow> if e = ExitError (Some 1) then (Inr False, s1) else (Inl e, s1))
      in and_then checked (\<lambda>tagExists s1.
           if tagExists
           then (Inl (NeutralExitError []), console_log (''Tag already exists: '' @ tag) s1)
           else
             and_then (run rt dir ''git'' [''config'', ''user.name'', name (tagAuthor cfg)] s1) (\<lambda>_ s2.
             and_then (run rt dir ''git'' [''config'', ''user.email'', email (tagAuthor cfg)] s2) (\<lambda>_ s3.
             and_then (run rt dir ''git'' [''tag'', ''-a'', ''-m'', msg, tag] s3) (\<lambda>_ s4.
             and_then (run rt dir ''git'' [''push'', ''origin'', ''refs/tags/'' @ tag] s4) (\<lambda>_ s5.
               (Inr (), console_log (''Tag has been created successfully: '' @ tag) s5)))))))"

subsection \<open>Publishing\<close>

definition publishPackage :: "runtime \<Rightarrow> string \<Rightarrow> config \<Rightarrow> string \<Rightarrow> state \<Rightarrow> unit result" where
  "publishPackage rt dir cfg ver s =
     and_then
       (if publishWith cfg = ''yarn''
          then run rt dir ''yarn'' [''publish'', ''--non-interactive'', ''--new-version'', ver] s
        else if publishWith cfg = ''npm''
          then run rt dir ''npm'' [''publish'', ''--access'', ''public''] s
        else (Inl (PlainError (''Unsupported publish type: '' @ publishWith cfg)), s))
       (\<lambda>_ s1. (Inr (), console_log (''Version has been published successfully: '' @ ver) s1))"

subsection \<open>The directory, the main function and the exit code\<close>

definition processDirectory :: "runtime \<Rightarrow> string \<Rightarrow> config \<Rightarrow> commit list \<Rightarrow> state \<Rightarrow> unit result" where
  "processDirectory rt dir cfg cs s =
     (let packageFile = path_join rt dir ''package.json'' in
      case readJson rt (JSON_parse_package rt) packageFile of
        Inl _ \<Rightarrow> (Inl (NeutralExitError (''package file not found: '' @ packageFile)), s)
      | Inr None \<Rightarrow> (Inl (PlainError ''missing version field!''), s)
      | Inr (Some packageObj) \<Rightarrow>
          (case version packageObj of
             None \<Rightarrow> (Inl (PlainError ''missing version field!''), s)
           | Some ver \<Rightarrow>
               and_then (checkCommit rt cfg cs ver s) (\<lambda>found s1.
                 if found then
                   (let s2 = (case createTag rt dir cfg ver s1 of
                                (Inr _, t) \<Rightarrow> console_log ''Tag created.'' t
                              | (Inl e, t) \<Rightarrow> console_error ''Failed to create the tag: '' e t)
                    in and_then (publishPackage rt dir cfg ver s2) (\<lambda>_ s3.
                         (Inr (), console_log ''Package published.'' s3)))
                 else
                   (Inr (), console_log
                      ''No release command detected in the commit message, finishing the job.'' s1))))"

definition default_pattern :: string where
  "default_pattern = ''^(?:Release|Version) ('' @ [CHR 0x5C] @ ''S+)''"

definition main :: "(string \<rightharpoonup> string) \<Rightarrow> runtime \<Rightarrow> state \<Rightarrow> unit result" where
  "main env rt s =
     (let dir = js_or (env ''GITHUB_WORKSPACE'') ''/github/workspace'';
          eventFile = js_or (env ''GITHUB_EVENT_PATH'') ''/github/workflow/event.json''
      in case readJson rt (JSON_parse_event rt) eventFile of
           Inl e \<Rightarrow> (Inl e, s)
         | Inr eventObj \<Rightarrow>
             (let defaultBranch = js_or (getEnv env ''DEFAULT_BRANCH'') ''master'' in
              if ref eventObj \<noteq> ''refs/heads/'' @ defaultBranch then
                (Inl (NeutralExitError []),
                 console_log (''Ref '' @ ref eventObj @ '' is not the default branch: '' @ defaultBranch
                    @ '', you must run this action on '' @ defaultBranch @ '' branch.'') s)
              else
                (let pattern = js_or (getEnv env ''COMMIT_PATTERN'') default_pattern;
                     own = owner (repository eventObj)
                 in case placeholderEnv env ''TAG_NAME'' ''v%s'' of
                      Inl e \<Rightarrow> (Inl e, s)
                    | Inr tn \<Rightarrow>
                        (case placeholderEnv env ''TAG_MESSAGE'' ''v%s'' of
                           Inl e \<Rightarrow> (Inl e, s)
                         | Inr tm \<Rightarrow>
                             processDirectory rt dir
                               \<lparr>commitPattern = pattern, tagName = tn, tagMessage = tm,
                                tagAuthor = \<lparr>name = js_or (getEnv env ''COMMIT_USER'') (name own),
                                             email = js_or (getEnv env ''COMMIT_EMAIL'') (email own)\<rparr>,
                                publishWith = js_or (getEnv env ''PUBLISH_WITH'') ''yarn''\<rparr>
                               (commits eventObj) s))))"

text \<open>
  The handler of the script's last lines: \<^verbatim>\<open>process.exitCode\<close> stays 0 when \<open>main\<close>
  resolves, is 78 for a \<^verbatim>\<open>NeutralExitError\<close> and 1 for any other error, which is
  printed (\<^verbatim>\<open>e.message || e\<close>).
\<close>

definition initial :: state where
  "initial = \<lparr>console = [], spawned = [], exitCode = 0\<rparr>"

definition handler :: "unit result \<Rightarrow> state" where
  "handler r =
     (case r of
        (Inr _, s) \<Rightarrow> s
      | (Inl e, s) \<Rightarrow>
          (case e of
             NeutralExitError _ \<Rightarrow> s\<lparr>exitCode := 78\<rparr>
           | _ \<Rightarrow>
               (let s1 = s\<lparr>exitCode := 1\<rparr>
                in if error_message e \<noteq> [] then console_log (error_message e) s1
                   else s1\<lparr>console := console s1 @ [LogObject e]\<rparr>)))"

definition script :: "(string \<rightharpoonup> string) \<Rightarrow> runtime \<Rightarrow> state" where
  "script env rt = handler (main env rt initial)"

section \<open>A runtime for the examples\<close>

text \<open>
  The default pattern \<^verbatim>\<open>^(?:Release|Version) (\S+)\<close> as a function on texts: the
  text starts with one of the two words and a space, and the group is the longest
  run of characters that are not white space, at least one.
\<close>

definition release_rx :: "string \<Rightarrow> string option list option" where
  "release_rx t =
     (if starts_with t ''Release '' \<or> starts_with t ''Version ''
      then (let g = takeWhile (\<lambda>c. \<not> is_space c) (drop 8 t)
            in if g = [] then None else Some [Some (take 8 t @ g), Some g])
      else None)"

definition sample_event :: event where
  "sample_event =
     \<lparr>ref = ''refs/heads/master'',
      repository = \<lparr>owner = \<lparr>name = ''octocat'', email = ''octocat@example.com''\<rparr>\<rparr>,
      commits = [\<lparr>message = ''fix bug''\<rparr>, \<lparr>message = ''Release 1.2.3''\<rparr>,
                 \<lparr>message = ''Version 1.2.3 again''\<rparr>]\<rparr>"

text \<open>
  The sample runtime knows the two files at their default paths, holding the sample
  event and a manifest of version 1.2.3. The only pattern it compiles is the default
  one, the only one the examples use. Every command exits with code 0, except
  \<^verbatim>\<open>git rev-parse\<close>, which exits with 1: the tag does not exist yet.
\<close>

definition sample_spawn :: "invocation list \<Rightarrow> invocation \<Rightarrow> proc_outcome" where
  "sample_spawn earlier call =
     (if take 1 (inv_args call) = [''rev-parse''] then Exit (Some 1) [] else Exit (Some 0) [])"

definition sample_runtime :: runtime where
  "sample_runtime =
     \<lparr>readFile = (\<lambda>f. if f = ''/github/workflow/event.json'' then Inr ''event''
                       else if f = ''/github/workspace/package.json'' then Inr ''package''
                       else Inl (''ENOENT: no such file or directory, open '' @ f)),
      JSON_parse_event = (\<lambda>t. if t = ''event'' then Inr sample_event
                               else Inl ''Unexpected token in JSON''),
      JSON_parse_package = (\<lambda>t. if t = ''package'' then Inr (Some \<lparr>version = Some ''1.2.3''\<rparr>)
                                 else Inl ''Unexpected token in JSON''),
      RegExp = (\<lambda>p. if p = default_pattern then Inr release_rx
                     else Inl (''Invalid regular expression: /'' @ p @ ''/'')),
      path_join = (\<lambda>a b. a @ ''/'' @ b),
      spawn = sample_spawn\<rparr>"

definition sample_config :: config where
  "sample_config =
     \<lparr>commitPattern = default_pattern, tagName = ''v%s'', tagMessage = ''v%s'',
      tagAuthor = \<lparr>name = ''octocat'', email = ''octocat@example.com''\<rparr>,
      publishWith = ''yarn''\<rparr>"

text \<open>
  Variants of the sample runtime: commands that all exit with a given code and
  error output, commands that cannot be launched, a workspace without manifest, a
  manifest that is not JSON, and a manifest of version 2.0.0, which no sample commit
  announces.
\<close>

definition constant_spawn :: "nat \<Rightarrow> string \<Rightarrow> invocation list \<Rightarrow> invocation \<Rightarrow> proc_outcome" where
  "constant_spawn code err earlier call = Exit (Some code) err"

definition launch_failure :: "invocation list \<Rightarrow> invocation \<Rightarrow> proc_outcome" where
  "launch_failure earlier call = LaunchError"

definition event_only :: "string \<Rightarrow> string + string" where
  "event_only f =
     (if f = ''/github/workflow/event.json'' then Inr ''event''
      else Inl (''ENOENT: no such file or directory, open '' @ f))"

definition broken_manifest :: "string \<Rightarrow> string + package option" where
  "broken_manifest t = Inl ''Unexpected token in JSON''"

definition next_manifest :: "string \<Rightarrow> string + package option" where
  "next_manifest t = Inr (Some \<lparr>version = Some ''2.0.0''\<rparr>)"

text \<open>
  An environment that leaves the plainly named variables unset and sets the seven
  \<^verbatim>\<open>INPUT_\<close> variables.
\<close>

definition alias_env :: "string \<rightharpoonup> string" where
  "alias_env =
     [''INPUT_COMMIT_PATTERN'' \<mapsto> default_pattern,
      ''INPUT_TAG_NAME'' \<mapsto> ''rel-%s'',
      ''INPUT_TAG_MESSAGE'' \<mapsto> ''Release %s'',
      ''INPUT_COMMIT_USER'' \<mapsto> ''release-bot'',
      ''INPUT_COMMIT_EMAIL'' \<mapsto> ''bot@example.com'',
      ''INPUT_PUBLISH_WITH'' \<mapsto> ''npm'',
      ''INPUT_DEFAULT_BRANCH'' \<mapsto> ''master'']"

text \<open>The seven options that \<open>main\<close> reads through \<open>getEnv\<close>.\<close>

definition option_names :: "string list" where
  "option_names =
     [''COMMIT_PATTERN'', ''TAG_NAME'', ''TAG_MESSAGE'', ''COMMIT_USER'', ''COMMIT_EMAIL'',
      ''PUBLISH_WITH'', ''DEFAULT_BRANCH'']"

section \<open>Basic facts\<close>

subsection \<open>State and sequencing\<close>

lemma console_log_fields [simp]:
  "console (console_log t s) = console s @ [Log t]"
  "spawned (console_log t s) = spawned s"
  "exitCode (console_log t s) = exitCode s"
  by (simp_all add: console_log_def)

lemma console_error_fields [simp]:
  "console (console_error t e s) = console s @ [ErrorLine t e]"
  "spawned (console_error t e s) = spawned s"
  "exitCode (console_error t e s) = exitCode s"
  by (simp_all add: console_error_def)

lemma and_then_Inl [simp]: "and_then (Inl e, s) f = (Inl e, s)"
  by (simp add: and_then_def)

lemma and_then_Inr [simp]: "and_then (Inr x, s) f = f x s"
  by (simp add: and_then_def)

lemma and_then_spawned:
  assumes "\<exists>l. spawned (snd m) = spawned s @ l"
    and "\<And>x t. \<exists>l. spawned (snd (f x t)) = spawned t @ l"
  shows "\<exists>l. spawned (snd (and_then m f)) = spawned s @ l"
proof (cases m)
  case (Pair r t)
  show ?thesis
  proof (cases r)
    case (Inl e)
    with Pair assms(1) show ?thesis by simp
  next
    case (Inr x)
    from assms(1) Pair obtain l where l: "spawned t = spawned s @ l" by auto
    from assms(2) obtain l' where "spawned (snd (f x t)) = spawned t @ l'" by blast
    with l Pair Inr show ?thesis by simp
  qed
qed

subsection \<open>Running a command\<close>

lemma run_spawned:
  "spawned (snd (run rt dir cmd as s)) =
     spawned s @ [\<lparr>inv_cwd = dir, inv_command = cmd, inv_args = as\<rparr>]"
  by (simp add: run_def Let_def split: proc_outcome.splits)

lemma run_extends:
  "\<exists>l. spawned (snd (run rt dir cmd as s)) = spawned s @ l"
  using run_spawned by blast

lemma and_then_run_extends:
  "(\<And>x t. \<exists>l. spawned (snd (f x t)) = spawned t @ l) \<Longrightarrow>
   \<exists>l. spawned (snd (and_then (run rt dir cmd as s) f)) = spawned s @ l"
  by (rule and_then_spawned [OF run_extends])

lemma run_success:
  assumes "spawn rt (spawned s) \<lparr>inv_cwd = dir, inv_command = cmd, inv_args = as\<rparr> = Exit (Some 0) err"
  shows "\<exists>t. run rt dir cmd as s = (Inr True, t) \<and>
             spawned t = spawned s @ [\<lparr>inv_cwd = dir, inv_command = cmd, inv_args = as\<rparr>] \<and>
             console t = console s @ [Log (''Executing: '' @ cmd @ '' '' @ join_space as)]"
  using assms by (simp add: run_def Let_def)

lemma run_launch_failure:
  "spawn rt (spawned s) \<lparr>inv_cwd = dir, inv_command = cmd, inv_args = as\<rparr> = LaunchError \<Longrightarrow>
   fst (run rt dir cmd as s) = Inl (PlainError (''command failed: '' @ cmd))"
  by (simp add: run_def Let_def)

lemma run_exit_failure:
  "spawn rt (spawned s) \<lparr>inv_cwd = dir, inv_command = cmd, inv_args = as\<rparr> = Exit code err \<Longrightarrow>
   code \<noteq> Some 0 \<Longrightarrow> fst (run rt dir cmd as s) = Inl (ExitError code)"
  by (simp add: run_def Let_def)

subsection \<open>The environment\<close>

lemma alias_differs: "''INPUT_'' @ nm \<noteq> nm"
proof
  assume "''INPUT_'' @ nm = nm"
  then have "length (''INPUT_'' @ nm) = length nm" by simp
  then show False by simp
qed

lemma option_name_no_alias: "nm \<in> set option_names \<Longrightarrow> ''INPUT_'' @ m \<noteq> nm"
  by (auto simp: option_names_def)

lemma option_name_not_path:
  "nm \<in> set option_names \<Longrightarrow> nm \<noteq> ''GITHUB_WORKSPACE'' \<and> nm \<noteq> ''GITHUB_EVENT_PATH''"
  by (auto simp: option_names_def)

lemma getEnv_plain_unset:
  assumes "env nm = None"
  shows "getEnv (env(nm := env (''INPUT_'' @ nm))) nm = getEnv env nm"
  using assms alias_differs [of nm] by (simp add: getEnv_def split: option.splits)

lemma getEnv_other:
  assumes "m \<noteq> nm" and "''INPUT_'' @ m \<noteq> nm"
  shows "getEnv (env(nm := v)) m = getEnv env m"
proof -
  have a: "(env(nm := v)) m = env m"
    using assms(1) by (rule fun_upd_other)
  have b: "(env(nm := v)) (''INPUT_'' @ m) = env (''INPUT_'' @ m)"
    using assms(2) by (rule fun_upd_other)
  show ?thesis by (simp only: getEnv_def a b)
qed

lemma main_env_cong:
  assumes "env ''GITHUB_WORKSPACE'' = env' ''GITHUB_WORKSPACE''"
    and "env ''GITHUB_EVENT_PATH'' = env' ''GITHUB_EVENT_PATH''"
    and "\<forall>nm \<in> set option_names. getEnv env nm = getEnv env' nm"
  shows "main env rt s = main env' rt s"
proof -
  from assms(3) have g:
    "getEnv env ''COMMIT_PATTERN'' = getEnv env' ''COMMIT_PATTERN''"
    "getEnv env ''TAG_NAME'' = getEnv env' ''TAG_NAME''"
    "getEnv env ''TAG_MESSAGE'' = getEnv env' ''TAG_MESSAGE''"
    "getEnv env ''COMMIT_USER'' = getEnv env' ''COMMIT_USER''"
    "getEnv env ''COMMIT_EMAIL'' = getEnv env' ''COMMIT_EMAIL''"
    "getEnv env ''PUBLISH_WITH'' = getEnv env' ''PUBLISH_WITH''"
    "getEnv env ''DEFAULT_BRANCH'' = getEnv env' ''DEFAULT_BRANCH''"
    by (simp_all add: option_names_def)
  show ?thesis
    unfolding main_def placeholderEnv_def assms(1) assms(2) g by (rule refl)
qed

subsection \<open>The commit scan\<close>

lemma checkCommit_invalid:
  "RegExp rt (commitPattern cfg) = Inl err \<Longrightarrow> fst (checkCommit rt cfg cs ver s) \<noteq> Inr True"
  by (cases cs) simp_all

lemma checkCommit_found_iff:
  "RegExp rt (commitPattern cfg) = Inr rx \<Longrightarrow>
   fst (checkCommit rt cfg cs ver s) = Inr True \<longleftrightarrow>
     (\<exists>c \<in> set cs. \<exists>m. rx (message c) = Some m \<and> group1 m = Some ver)"
  by (induction cs) (auto split: option.splits)

lemma checkCommit_none:
  "RegExp rt (commitPattern cfg) = Inr rx \<Longrightarrow>
   \<forall>c \<in> set cs. \<not> (\<exists>m. rx (message c) = Some m \<and> group1 m = Some ver) \<Longrightarrow>
   checkCommit rt cfg cs ver s = (Inr False, s)"
  by (induction cs) (auto split: option.splits)

lemma checkCommit_first:
  "RegExp rt (commitPattern cfg) = Inr rx \<Longrightarrow>
   \<forall>c \<in> set pre. \<not> (\<exists>m. rx (message c) = Some m \<and> group1 m = Some ver) \<Longrightarrow>
   rx (message c) = Some m \<Longrightarrow> group1 m = Some ver \<Longrightarrow>
   checkCommit rt cfg (pre @ c # post) ver s =
     (Inr True, console_log (''Found commit: '' @ message c) s)"
  by (induction pre) (auto split: option.splits)

subsection \<open>Publishing, the directory and the handler\<close>

lemma publishPackage_result:
  "publishWith cfg = ''yarn'' \<or> publishWith cfg = ''npm'' \<Longrightarrow>
   spawned (snd (publishPackage rt dir cfg ver s)) =
     spawned s @ [\<lparr>inv_cwd = dir,
                   inv_command = publishWith cfg,
                   inv_args = (if publishWith cfg = ''yarn''
                               then [''publish'', ''--non-interactive'', ''--new-version'', ver]
                               else [''publish'', ''--access'', ''public''])\<rparr>]"
  by (auto simp: publishPackage_def run_def Let_def and_then_def
      split: proc_outcome.splits prod.splits sum.splits)

lemma publishPackage_console:
  "\<exists>l. console (snd (publishPackage rt dir cfg ver s)) = console s @ l"
  by (auto simp: publishPackage_def run_def Let_def and_then_def
      split: proc_outcome.splits prod.splits sum.splits)

lemma processDirectory_unreadable:
  "readJson rt (JSON_parse_package rt) (path_join rt dir ''package.json'') = Inl e \<Longrightarrow>
   processDirectory rt dir cfg cs s =
     (Inl (NeutralExitError (''package file not found: '' @ path_join rt dir ''package.json'')), s)"
  by (simp add: processDirectory_def Let_def)

lemma processDirectory_no_release:
  "readJson rt (JSON_parse_package rt) (path_join rt dir ''package.json'') = Inr (Some p) \<Longrightarrow>
   version p = Some ver \<Longrightarrow> checkCommit rt cfg cs ver s = (Inr False, s1) \<Longrightarrow>
   processDirectory rt dir cfg cs s =
     (Inr (), console_log
        ''No release command detected in the commit message, finishing the job.'' s1)"
  by (simp add: processDirectory_def Let_def)

lemma main_gate_config:
  assumes "readJson rt (JSON_parse_event rt)
             (js_or (env ''GITHUB_EVENT_PATH'') ''/github/workflow/event.json'') = Inr ev"
    and "ref ev = ''refs/heads/'' @ js_or (getEnv env ''DEFAULT_BRANCH'') ''master''"
    and "placeholderEnv env ''TAG_NAME'' ''v%s'' = Inr tn"
    and "placeholderEnv env ''TAG_MESSAGE'' ''v%s'' = Inr tm"
  shows "main env rt s =
           processDirectory rt (js_or (env ''GITHUB_WORKSPACE'') ''/github/workspace'')
             \<lparr>commitPattern = js_or (getEnv env ''COMMIT_PATTERN'') default_pattern,
              tagName = tn, tagMessage = tm,
              tagAuthor = \<lparr>name = js_or (getEnv env ''COMMIT_USER'') (name (owner (repository ev))),
                           email = js_or (getEnv env ''COMMIT_EMAIL'') (email (owner (repository ev)))\<rparr>,
              publishWith = js_or (getEnv env ''PUBLISH_WITH'') ''yarn''\<rparr>
             (commits ev) s"
  using assms by (simp add: main_def Let_def)

lemma main_gate_closed:
  assumes "readJson rt (JSON_parse_event rt)
             (js_or (env ''GITHUB_EVENT_PATH'') ''/github/workflow/event.json'') = Inr ev"
    and "ref ev \<noteq> ''refs/heads/'' @ js_or (getEnv env ''DEFAULT_BRANCH'') ''master''"
  shows "main env rt s =
           (Inl (NeutralExitError []),
            console_log (''Ref '' @ ref ev @ '' is not the default branch: ''
               @ js_or (getEnv env ''DEFAULT_BRANCH'') ''master''
               @ '', you must run this action on ''
               @ js_or (getEnv env ''DEFAULT_BRANCH'') ''master'' @ '' branch.'') s)"
  using assms by (simp add: main_def Let_def)

lemma getEnv_alias_value:
  assumes "env nm = None" and "env (''INPUT_'' @ nm) = Some v" and "v \<noteq> []"
  shows "js_or (getEnv env nm) d = v"
    and "str_includes v ''%s'' \<Longrightarrow> placeholderEnv env nm d = Inr v"
  using assms by (simp_all add: getEnv_def js_or_def placeholderEnv_def)

lemma main_gate_passed:
  assumes "readJson rt (JSON_parse_event rt)
             (js_or (env ''GITHUB_EVENT_PATH'') ''/github/workflow/event.json'') = Inr ev"
    and "ref ev = ''refs/heads/'' @ js_or (getEnv env ''DEFAULT_BRANCH'') ''master''"
    and "placeholderEnv env ''TAG_NAME'' ''v%s'' = Inr tn"
    and "placeholderEnv env ''TAG_MESSAGE'' ''v%s'' = Inr tm"
  shows "\<exists>cfg. commitPattern cfg = js_or (getEnv env ''COMMIT_PATTERN'') default_pattern \<and>
           main env rt s =
             processDirectory rt (js_or (env ''GITHUB_WORKSPACE'') ''/github/workspace'') cfg
               (commits ev) s"
proof -
  let ?cfg = "\<lparr>commitPattern = js_or (getEnv env ''COMMIT_PATTERN'') default_pattern,
               tagName = tn, tagMessage = tm,
               tagAuthor = \<lparr>name = js_or (getEnv env ''COMMIT_USER'') (name (owner (repository ev))),
                            email = js_or (getEnv env ''COMMIT_EMAIL'') (email (owner (repository ev)))\<rparr>,
               publishWith = js_or (getEnv env ''PUBLISH_WITH'') ''yarn''\<rparr>"
  have "main env rt s =
          processDirectory rt (js_or (env ''GITHUB_WORKSPACE'') ''/github/workspace'') ?cfg
            (commits ev) s"
    using assms by (simp add: main_def Let_def)
  moreover have "commitPattern ?cfg = js_or (getEnv env ''COMMIT_PATTERN'') default_pattern"
    by simp
  ultimately show ?thesis by blast
qed

lemma handler_spawned [simp]: "spawned (handler (r, s)) = spawned s"
  by (cases r; simp add: handler_def Let_def split: js_error.splits)

lemma handler_neutral [simp]: "exitCode (handler (Inl (NeutralExitError m), s)) = 78"
  by (simp add: handler_def)

lemma handler_resolved [simp]: "handler (Inr u, s) = s"
  by (simp add: handler_def)

subsection \<open>The sample runtime\<close>

lemma release_rx_examples:
  "release_rx ''fix bug'' = None"
  "release_rx ''Release 1.2.3'' = Some [Some ''Release 1.2.3'', Some ''1.2.3'']"
  "release_rx ''Version 1.2.3 again'' = Some [Some ''Version 1.2.3'', Some ''1.2.3'']"
  by (simp_all add: release_rx_def is_space_def Let_def)

lemma sample_RegExp: "RegExp sample_runtime (commitPattern sample_config) = Inr release_rx"
  by (simp add: sample_runtime_def sample_config_def)

lemma sample_event_read:
  "readJson sample_runtime (JSON_parse_event sample_runtime) ''/github/workflow/event.json''
     = Inr sample_event"
  by (simp add: readJson_def sample_runtime_def)

lemma sample_package_read:
  "readJson (sample_runtime\<lparr>spawn := sp\<rparr>) (JSON_parse_package (sample_runtime\<lparr>spawn := sp\<rparr>))
     (path_join (sample_runtime\<lparr>spawn := sp\<rparr>) ''/github/workspace'' ''package.json'')
     = Inr (Some \<lparr>version = Some ''1.2.3''\<rparr>)"
  by (simp add: readJson_def sample_runtime_def)

lemma sample_scan:
  "checkCommit (sample_runtime\<lparr>spawn := sp\<rparr>) sample_config (commits sample_event) ''1.2.3'' initial
     = (Inr True, console_log ''Found commit: Release 1.2.3'' initial)"
  by (simp add: sample_runtime_def sample_config_def sample_event_def release_rx_examples
      group1_def)

section \<open>The claims\<close>

subsection \<open>C1: a manifest that cannot be read\<close>

text \<open>
  Claim C1, as amended. When the manifest cannot be read or is not JSON,
  \<open>processDirectory\<close> replaces the error by a \<open>NeutralExitError\<close> with the message
  \<^verbatim>\<open>package file not found: <path>\<close>, which the handler turns into exit code 78. So a
  run that gets as far as the manifest (the event is read, its \<^verbatim>\<open>ref\<close> is the default
  branch, both tag templates are accepted) ends with exit code 78 and has spawned no
  command.
\<close>

theorem missing_manifest_is_neutral:
  assumes "readFile rt (path_join rt dir ''package.json'') = Inl err \<or>
           (\<exists>data. readFile rt (path_join rt dir ''package.json'') = Inr data \<and>
                   JSON_parse_package rt data = Inl err)"
  shows "processDirectory rt dir cfg cs s =
           (Inl (NeutralExitError (''package file not found: '' @ path_join rt dir ''package.json'')), s) \<and>
         exitCode (handler (processDirectory rt dir cfg cs s)) = 78 \<and>
         (dir = js_or (env ''GITHUB_WORKSPACE'') ''/github/workspace'' \<longrightarrow>
          readJson rt (JSON_parse_event rt)
            (js_or (env ''GITHUB_EVENT_PATH'') ''/github/workflow/event.json'') = Inr ev \<longrightarrow>
          ref ev = ''refs/heads/'' @ js_or (getEnv env ''DEFAULT_BRANCH'') ''master'' \<longrightarrow>
          placeholderEnv env ''TAG_NAME'' ''v%s'' = Inr tn \<longrightarrow>
          placeholderEnv env ''TAG_MESSAGE'' ''v%s'' = Inr tm \<longrightarrow>
          exitCode (script env rt) = 78 \<and> spawned (script env rt) = [])"
proof -
  from assms have "readJson rt (JSON_parse_package rt) (path_join rt dir ''package.json'')
                     = Inl (RuntimeError err)"
    by (auto simp: readJson_def)
  then have p: "\<And>c l t. processDirectory rt dir c l t =
           (Inl (NeutralExitError (''package file not found: '' @ path_join rt dir ''package.json'')), t)"
    by (rule processDirectory_unreadable)
  have "exitCode (script env rt) = 78 \<and> spawned (script env rt) = []"
    if d: "dir = js_or (env ''GITHUB_WORKSPACE'') ''/github/workspace''"
      and e: "readJson rt (JSON_parse_event rt)
            (js_or (env ''GITHUB_EVENT_PATH'') ''/github/workflow/event.json'') = Inr ev"
      and r: "ref ev = ''refs/heads/'' @ js_or (getEnv env ''DEFAULT_BRANCH'') ''master''"
      and tn: "placeholderEnv env ''TAG_NAME'' ''v%s'' = Inr tn"
      and tm: "placeholderEnv env ''TAG_MESSAGE'' ''v%s'' = Inr tm"
  proof -
    from main_gate_passed [OF e r tn tm, of initial] obtain c where
      "main env rt initial = processDirectory rt dir c (commits ev) initial"
      using d by auto
    then show ?thesis by (simp add: p script_def initial_def)
  qed
  then show ?thesis by (simp add: p)
qed

text \<open>
  Claim C1 as stated fails: in a workspace without \<^verbatim>\<open>package.json\<close> the run ends with
  exit code 78, not 1.
\<close>

theorem missing_manifest_exit_78:
  "exitCode (script Map.empty (sample_runtime\<lparr>readFile := event_only\<rparr>)) = 78"
  by (simp add: script_def main_def processDirectory_def readJson_def Let_def js_or_def
      getEnv_def placeholderEnv_def sample_runtime_def sample_event_def event_only_def
      initial_def)

theorem missing_manifest_is_neutral_witness:
  "processDirectory (sample_runtime\<lparr>JSON_parse_package := broken_manifest\<rparr>)
     ''/github/workspace'' sample_config (commits sample_event) initial
     = (Inl (NeutralExitError ''package file not found: /github/workspace/package.json''), initial) \<and>
   exitCode (script Map.empty (sample_runtime\<lparr>JSON_parse_package := broken_manifest\<rparr>)) = 78 \<and>
   spawned (script Map.empty (sample_runtime\<lparr>JSON_parse_package := broken_manifest\<rparr>)) = []"
proof -
  let ?rt = "sample_runtime\<lparr>JSON_parse_package := broken_manifest\<rparr>"
  have a: "readFile ?rt (path_join ?rt ''/github/workspace'' ''package.json'') = Inl ''Unexpected token in JSON'' \<or>
           (\<exists>data. readFile ?rt (path_join ?rt ''/github/workspace'' ''package.json'') = Inr data \<and>
                   JSON_parse_package ?rt data = Inl ''Unexpected token in JSON'')"
    by (simp add: sample_runtime_def broken_manifest_def)
  have d: "''/github/workspace'' = js_or (Map.empty ''GITHUB_WORKSPACE'') ''/github/workspace''"
    by (simp add: js_or_def)
  have e: "readJson ?rt (JSON_parse_event ?rt)
            (js_or (Map.empty ''GITHUB_EVENT_PATH'') ''/github/workflow/event.json'') = Inr sample_event"
    by (simp add: js_or_def readJson_def sample_runtime_def)
  have r: "ref sample_event = ''refs/heads/'' @ js_or (getEnv Map.empty ''DEFAULT_BRANCH'') ''master''"
    by (simp add: sample_event_def js_or_def getEnv_def)
  have tn: "placeholderEnv Map.empty ''TAG_NAME'' ''v%s'' = Inr ''v%s''"
    by (simp add: placeholderEnv_def getEnv_def)
  have tm: "placeholderEnv Map.empty ''TAG_MESSAGE'' ''v%s'' = Inr ''v%s''"
    by (simp add: placeholderEnv_def getEnv_def)
  have j: "path_join ?rt ''/github/workspace'' ''package.json'' = ''/github/workspace/package.json''"
    by (simp add: sample_runtime_def)
  show ?thesis
    using missing_manifest_is_neutral [OF a, of sample_config "commits sample_event" initial
        Map.empty sample_event "''v%s''" "''v%s''"] d e r tn tm j
    by simp
qed

subsection \<open>C2: the strategy skip\<close>

text \<open>
  Claim C2, which the code does not meet. \<open>publishPackage\<close> knows \<^verbatim>\<open>yarn\<close> and
  \<^verbatim>\<open>npm\<close> only: with \<^verbatim>\<open>skip\<close> it throws \<^verbatim>\<open>Unsupported publish type: skip\<close>, and the
  sample run with \<^verbatim>\<open>PUBLISH_WITH=skip\<close> creates and pushes the tag and then ends with
  exit code 1.
\<close>

theorem publish_skip_is_rejected:
  "publishPackage rt dir (cfg\<lparr>publishWith := ''skip''\<rparr>) ver s
     = (Inl (PlainError ''Unsupported publish type: skip''), s) \<and>
   exitCode (script [''PUBLISH_WITH'' \<mapsto> ''skip''] sample_runtime) = 1 \<and>
   last (console (script [''PUBLISH_WITH'' \<mapsto> ''skip''] sample_runtime))
     = Log ''Unsupported publish type: skip''"
  by (simp add: publishPackage_def script_def main_def processDirectory_def createTag_def
      run_def readJson_def Let_def js_or_def handler_def getEnv_def placeholderEnv_def
      sample_runtime_def sample_event_def sample_spawn_def initial_def release_rx_def
      is_space_def group1_def replace_placeholder_def console_log_def)

subsection \<open>C3: the commit scan\<close>

text \<open>
  Claim C3. The scan answers \<^verbatim>\<open>true\<close> exactly when the pattern is a regular expression
  and some commit message matches it with capture group 1 equal, as a string, to the
  version. It stops at the first such commit \<open>c\<close>: the commits \<open>post\<close> after it have
  no influence and the only line printed names \<open>c\<close>. A match whose group 1 is any
  other string (a \<^verbatim>\<open>1.2.3\<close> against the version \<^verbatim>\<open>v1.2.3\<close>) does not count.
\<close>

theorem checkCommit_first_exact_match:
  "(fst (checkCommit rt cfg cs ver s) = Inr True \<longleftrightarrow>
      (\<exists>rx. RegExp rt (commitPattern cfg) = Inr rx \<and>
         (\<exists>c \<in> set cs. \<exists>m. rx (message c) = Some m \<and> group1 m = Some ver))) \<and>
   (RegExp rt (commitPattern cfg) = Inr rx \<longrightarrow>
      (\<forall>c \<in> set pre. \<not> (\<exists>m. rx (message c) = Some m \<and> group1 m = Some ver)) \<longrightarrow>
      rx (message c) = Some m \<longrightarrow> group1 m = Some ver \<longrightarrow>
      checkCommit rt cfg (pre @ c # post) ver s =
        (Inr True, console_log (''Found commit: '' @ message c) s)) \<and>
   (RegExp rt (commitPattern cfg) = Inr rx \<longrightarrow>
      rx (message c) = Some m \<longrightarrow> group1 m \<noteq> Some ver \<longrightarrow>
      checkCommit rt cfg [c] ver s = (Inr False, s))"
proof (intro conjI impI)
  show "fst (checkCommit rt cfg cs ver s) = Inr True \<longleftrightarrow>
      (\<exists>rx. RegExp rt (commitPattern cfg) = Inr rx \<and>
         (\<exists>c \<in> set cs. \<exists>m. rx (message c) = Some m \<and> group1 m = Some ver))"
  proof (cases "RegExp rt (commitPattern cfg)")
    case (Inl err)
    then show ?thesis using checkCommit_invalid [OF Inl] by simp
  next
    case (Inr r)
    then show ?thesis using checkCommit_found_iff [OF Inr] by simp
  qed
next
  assume "RegExp rt (commitPattern cfg) = Inr rx"
    and "\<forall>c \<in> set pre. \<not> (\<exists>m. rx (message c) = Some m \<and> group1 m = Some ver)"
    and "rx (message c) = Some m" and "group1 m = Some ver"
  then show "checkCommit rt cfg (pre @ c # post) ver s =
        (Inr True, console_log (''Found commit: '' @ message c) s)"
    by (rule checkCommit_first)
next
  assume "RegExp rt (commitPattern cfg) = Inr rx" and "rx (message c) = Some m"
    and "group1 m \<noteq> Some ver"
  then show "checkCommit rt cfg [c] ver s = (Inr False, s)" by simp
qed

theorem checkCommit_first_exact_match_witness:
  "fst (checkCommit sample_runtime sample_config (commits sample_event) ''1.2.3'' initial) = Inr True \<and>
   checkCommit sample_runtime sample_config
     ([\<lparr>message = ''fix bug''\<rparr>] @ \<lparr>message = ''Release 1.2.3''\<rparr> # [\<lparr>message = ''Version 1.2.3 again''\<rparr>])
     ''1.2.3'' initial
     = (Inr True, console_log ''Found commit: Release 1.2.3'' initial) \<and>
   checkCommit sample_runtime sample_config [\<lparr>message = ''Release 1.2.3''\<rparr>] ''v1.2.3'' initial
     = (Inr False, initial)"
proof -
  note t = checkCommit_first_exact_match [of sample_runtime sample_config _ _ initial release_rx]
  have a: "\<exists>rx. RegExp sample_runtime (commitPattern sample_config) = Inr rx \<and>
         (\<exists>c \<in> set (commits sample_event). \<exists>m. rx (message c) = Some m \<and> group1 m = Some ''1.2.3'')"
    by (simp add: sample_RegExp sample_event_def release_rx_examples group1_def)
  have 1: "fst (checkCommit sample_runtime sample_config (commits sample_event) ''1.2.3'' initial) = Inr True"
    using t [of "commits sample_event" "''1.2.3''"] a by blast
  have 2: "checkCommit sample_runtime sample_config
     ([\<lparr>message = ''fix bug''\<rparr>] @ \<lparr>message = ''Release 1.2.3''\<rparr> # [\<lparr>message = ''Version 1.2.3 again''\<rparr>])
     ''1.2.3'' initial
     = (Inr True, console_log ''Found commit: Release 1.2.3'' initial)"
    using t [of _ "''1.2.3''" "[\<lparr>message = ''fix bug''\<rparr>]" "\<lparr>message = ''Release 1.2.3''\<rparr>"
               "[Some ''Release 1.2.3'', Some ''1.2.3'']" "[\<lparr>message = ''Version 1.2.3 again''\<rparr>]"]
    by (simp add: sample_RegExp release_rx_examples group1_def)
  have 3: "checkCommit sample_runtime sample_config [\<lparr>message = ''Release 1.2.3''\<rparr>] ''v1.2.3'' initial
     = (Inr False, initial)"
    using t [of _ "''v1.2.3''" _ "\<lparr>message = ''Release 1.2.3''\<rparr>"
               "[Some ''Release 1.2.3'', Some ''1.2.3'']"]
    by (simp add: sample_RegExp release_rx_examples group1_def)
  from 1 2 3 show ?thesis by simp
qed

subsection \<open>C4: the outcome of a command\<close>

text \<open>
  Claim C4, as amended. When the command exits with code 0 the invocation resolves
  (with \<^verbatim>\<open>true\<close>). When it exits with any other code, the invocation fails with an
  \<open>ExitError\<close> that carries the exit code only; the captured error output is not
  part of the error: \<open>run\<close> itself prints it, trimmed, after the line
  \<^verbatim>\<open>command failed with code N\<close>, and prints nothing when the trimmed text is empty.
\<close>

theorem run_exit_status:
  assumes "spawn rt (spawned s) \<lparr>inv_cwd = dir, inv_command = cmd, inv_args = as\<rparr> = Exit code err"
  shows "(code = Some 0 \<longrightarrow> fst (run rt dir cmd as s) = Inr True) \<and>
         (code \<noteq> Some 0 \<longrightarrow>
            fst (run rt dir cmd as s) = Inl (ExitError code) \<and>
            console (snd (run rt dir cmd as s)) =
              console s @ [Log (''Executing: '' @ cmd @ '' '' @ join_space as)] @
              (if trim err = [] then []
               else [Log (''command failed with code '' @ show_code code), Log (trim err)]))"
  using assms by (simp add: run_def Let_def)

text \<open>
  Claim C4 as stated fails: two runs of the same command that exit with code 2 and
  different error output fail with the same error value, \<open>ExitError (Some 2)\<close>, so
  the error does not carry the captured text.
\<close>

theorem run_error_without_stderr:
  "fst (run (sample_runtime\<lparr>spawn := constant_spawn 2 ''fatal: no such ref''\<rparr>)
          ''/github/workspace'' ''git'' [''push'', ''origin'', ''refs/tags/v1.2.3''] initial)
     = Inl (ExitError (Some 2)) \<and>
   fst (run (sample_runtime\<lparr>spawn := constant_spawn 2 ''permission denied''\<rparr>)
          ''/github/workspace'' ''git'' [''push'', ''origin'', ''refs/tags/v1.2.3''] initial)
     = Inl (ExitError (Some 2))"
  by (simp add: run_def Let_def constant_spawn_def)

theorem run_exit_status_witness:
  "fst (run (sample_runtime\<lparr>spawn := constant_spawn 0 []\<rparr>)
          ''/github/workspace'' ''git'' [''push''] initial) = Inr True \<and>
   fst (run (sample_runtime\<lparr>spawn := constant_spawn 2 '' fatal: no such ref ''\<rparr>)
          ''/github/workspace'' ''git'' [''push''] initial) = Inl (ExitError (Some 2)) \<and>
   console (snd (run (sample_runtime\<lparr>spawn := constant_spawn 2 '' fatal: no such ref ''\<rparr>)
          ''/github/workspace'' ''git'' [''push''] initial)) =
     [Log ''Executing: git push'', Log ''command failed with code 2'', Log ''fatal: no such ref'']"
proof -
  have ok: "spawn (sample_runtime\<lparr>spawn := constant_spawn 0 []\<rparr>) (spawned initial)
             \<lparr>inv_cwd = ''/github/workspace'', inv_command = ''git'', inv_args = [''push'']\<rparr>
           = Exit (Some 0) []"
    by (simp add: constant_spawn_def)
  have h: "spawn (sample_runtime\<lparr>spawn := constant_spawn 2 '' fatal: no such ref ''\<rparr>) (spawned initial)
             \<lparr>inv_cwd = ''/github/workspace'', inv_command = ''git'', inv_args = [''push'']\<rparr>
           = Exit (Some 2) '' fatal: no such ref ''"
    by (simp add: constant_spawn_def)
  have t: "trim '' fatal: no such ref '' = ''fatal: no such ref''"
    by (simp add: trim_def is_space_def)
  have c: "show_code (Some 2) = ''2''"
    by (simp add: show_code_def show_nat.simps digit_char_def)
  show ?thesis
    using run_exit_status [OF ok] run_exit_status [OF h] by (simp add: t c initial_def)
qed

subsection \<open>C5: the INPUT aliases\<close>

text \<open>
  Claim C5, as amended. For each of the seven options read through \<open>getEnv\<close>
  (\<^verbatim>\<open>COMMIT_PATTERN\<close>, \<^verbatim>\<open>TAG_NAME\<close>, \<^verbatim>\<open>TAG_MESSAGE\<close>, \<^verbatim>\<open>COMMIT_USER\<close>,
  \<^verbatim>\<open>COMMIT_EMAIL\<close>, \<^verbatim>\<open>PUBLISH_WITH\<close>, \<^verbatim>\<open>DEFAULT_BRANCH\<close>), when the plainly named
  variable is unset the value of the \<^verbatim>\<open>INPUT_\<close> variable is the option's value, and
  \<open>main\<close> runs as if the plain variable had been set to it. That value is the one the
  run works with: a value \<open>v\<close> that is not empty replaces the default, the branch
  gate compares the \<^verbatim>\<open>ref\<close> with the option \<^verbatim>\<open>DEFAULT_BRANCH\<close>, and past the gate
  \<open>processDirectory\<close> is called with the configuration made of the six other options.
  \<^verbatim>\<open>GITHUB_WORKSPACE\<close> and \<^verbatim>\<open>GITHUB_EVENT_PATH\<close> have no such alias: \<open>main\<close> does not
  depend on \<^verbatim>\<open>INPUT_GITHUB_WORKSPACE\<close> or \<^verbatim>\<open>INPUT_GITHUB_EVENT_PATH\<close> at all.
\<close>

theorem input_alias_fallback:
  "(nm \<in> set option_names \<longrightarrow> env nm = None \<longrightarrow>
      getEnv env nm = env (''INPUT_'' @ nm) \<and>
      main env rt s = main (env(nm := env (''INPUT_'' @ nm))) rt s) \<and>
   main (env(''INPUT_GITHUB_WORKSPACE'' := x, ''INPUT_GITHUB_EVENT_PATH'' := y)) rt s = main env rt s \<and>
   (env nm = None \<longrightarrow> env (''INPUT_'' @ nm) = Some v \<longrightarrow> v \<noteq> [] \<longrightarrow>
      js_or (getEnv env nm) d = v \<and>
      (str_includes v ''%s'' \<longrightarrow> placeholderEnv env nm d = Inr v)) \<and>
   (readJson rt (JSON_parse_event rt)
      (js_or (env ''GITHUB_EVENT_PATH'') ''/github/workflow/event.json'') = Inr ev \<longrightarrow>
    ref ev \<noteq> ''refs/heads/'' @ js_or (getEnv env ''DEFAULT_BRANCH'') ''master'' \<longrightarrow>
      main env rt s =
        (Inl (NeutralExitError []),
         console_log (''Ref '' @ ref ev @ '' is not the default branch: ''
            @ js_or (getEnv env ''DEFAULT_BRANCH'') ''master''
            @ '', you must run this action on ''
            @ js_or (getEnv env ''DEFAULT_BRANCH'') ''master'' @ '' branch.'') s)) \<and>
   (readJson rt (JSON_parse_event rt)
      (js_or (env ''GITHUB_EVENT_PATH'') ''/github/workflow/event.json'') = Inr ev \<longrightarrow>
    ref ev = ''refs/heads/'' @ js_or (getEnv env ''DEFAULT_BRANCH'') ''master'' \<longrightarrow>
    placeholderEnv env ''TAG_NAME'' ''v%s'' = Inr tn \<longrightarrow>
    placeholderEnv env ''TAG_MESSAGE'' ''v%s'' = Inr tm \<longrightarrow>
      main env rt s =
        processDirectory rt (js_or (env ''GITHUB_WORKSPACE'') ''/github/workspace'')
          \<lparr>commitPattern = js_or (getEnv env ''COMMIT_PATTERN'') default_pattern,
           tagName = tn, tagMessage = tm,
           tagAuthor = \<lparr>name = js_or (getEnv env ''COMMIT_USER'') (name (owner (repository ev))),
                        email = js_or (getEnv env ''COMMIT_EMAIL'') (email (owner (repository ev)))\<rparr>,
           publishWith = js_or (getEnv env ''PUBLISH_WITH'') ''yarn''\<rparr>
          (commits ev) s)"
proof (intro conjI impI)
  assume nm: "nm \<in> set option_names" and unset: "env nm = None"
  show "getEnv env nm = env (''INPUT_'' @ nm)"
    using unset by (simp add: getEnv_def)
  let ?env = "env(nm := env (''INPUT_'' @ nm))"
  have "getEnv env m = getEnv ?env m" if "m \<in> set option_names" for m
  proof (cases "m = nm")
    case True
    then show ?thesis using getEnv_plain_unset [of env nm, OF unset] by simp
  next
    case False
    then show ?thesis using getEnv_other [OF False option_name_no_alias [OF nm]] by simp
  qed
  moreover have "env ''GITHUB_WORKSPACE'' = ?env ''GITHUB_WORKSPACE''"
    and "env ''GITHUB_EVENT_PATH'' = ?env ''GITHUB_EVENT_PATH''"
    using option_name_not_path [OF nm] by auto
  ultimately show "main env rt s = main ?env rt s"
    by (intro main_env_cong) auto
next
  show "main (env(''INPUT_GITHUB_WORKSPACE'' := x, ''INPUT_GITHUB_EVENT_PATH'' := y)) rt s = main env rt s"
  proof (rule main_env_cong)
    show "\<forall>m \<in> set option_names.
            getEnv (env(''INPUT_GITHUB_WORKSPACE'' := x, ''INPUT_GITHUB_EVENT_PATH'' := y)) m
              = getEnv env m"
    proof
      fix m assume "m \<in> set option_names"
      then have d: "m \<noteq> ''INPUT_GITHUB_WORKSPACE''" "m \<noteq> ''INPUT_GITHUB_EVENT_PATH''"
        "''INPUT_'' @ m \<noteq> ''INPUT_GITHUB_WORKSPACE''"
        "''INPUT_'' @ m \<noteq> ''INPUT_GITHUB_EVENT_PATH''"
        by (auto simp: option_names_def)
      show "getEnv (env(''INPUT_GITHUB_WORKSPACE'' := x, ''INPUT_GITHUB_EVENT_PATH'' := y)) m
              = getEnv env m"
        by (simp only: getEnv_other [OF d(2) d(4)] getEnv_other [OF d(1) d(3)])
    qed
  qed simp_all
next
  assume a: "env nm = None" "env (''INPUT_'' @ nm) = Some v" "v \<noteq> []"
  show "js_or (getEnv env nm) d = v"
    by (rule getEnv_alias_value(1) [OF a])
  show "placeholderEnv env nm d = Inr v" if "str_includes v ''%s''"
    using that by (rule getEnv_alias_value(2) [OF a])
next
  assume "readJson rt (JSON_parse_event rt)
      (js_or (env ''GITHUB_EVENT_PATH'') ''/github/workflow/event.json'') = Inr ev"
    and "ref ev \<noteq> ''refs/heads/'' @ js_or (getEnv env ''DEFAULT_BRANCH'') ''master''"
  then show "main env rt s =
        (Inl (NeutralExitError []),
         console_log (''Ref '' @ ref ev @ '' is not the default branch: ''
            @ js_or (getEnv env ''DEFAULT_BRANCH'') ''master''
            @ '', you must run this action on ''
            @ js_or (getEnv env ''DEFAULT_BRANCH'') ''master'' @ '' branch.'') s)"
    by (rule main_gate_closed)
next
  assume "readJson rt (JSON_parse_event rt)
      (js_or (env ''GITHUB_EVENT_PATH'') ''/github/workflow/event.json'') = Inr ev"
    and "ref ev = ''refs/heads/'' @ js_or (getEnv env ''DEFAULT_BRANCH'') ''master''"
    and "placeholderEnv env ''TAG_NAME'' ''v%s'' = Inr tn"
    and "placeholderEnv env ''TAG_MESSAGE'' ''v%s'' = Inr tm"
  then show "main env rt s =
        processDirectory rt (js_or (env ''GITHUB_WORKSPACE'') ''/github/workspace'')
          \<lparr>commitPattern = js_or (getEnv env ''COMMIT_PATTERN'') default_pattern,
           tagName = tn, tagMessage = tm,
           tagAuthor = \<lparr>name = js_or (getEnv env ''COMMIT_USER'') (name (owner (repository ev))),
                        email = js_or (getEnv env ''COMMIT_EMAIL'') (email (owner (repository ev)))\<rparr>,
           publishWith = js_or (getEnv env ''PUBLISH_WITH'') ''yarn''\<rparr>
          (commits ev) s"
    by (rule main_gate_config)
qed

text \<open>
  Claim C5 as stated fails for \<^verbatim>\<open>GITHUB_WORKSPACE\<close>: with the plain variable unset and
  \<^verbatim>\<open>INPUT_GITHUB_WORKSPACE=/repo\<close>, every command of the sample run still has the
  working directory \<^verbatim>\<open>/github/workspace\<close>.
\<close>

theorem workspace_alias_ignored:
  "map inv_cwd (spawned (script [''INPUT_GITHUB_WORKSPACE'' \<mapsto> ''/repo''] sample_runtime))
     = [''/github/workspace'', ''/github/workspace'', ''/github/workspace'',
        ''/github/workspace'', ''/github/workspace'', ''/github/workspace'']"
  by (simp add: publishPackage_def script_def main_def processDirectory_def createTag_def
      run_def readJson_def Let_def js_or_def getEnv_def placeholderEnv_def
      sample_runtime_def sample_event_def sample_spawn_def initial_def release_rx_def
      is_space_def group1_def replace_placeholder_def console_log_def)

text \<open>
  The sample run with the seven plain variables unset and every \<^verbatim>\<open>INPUT_\<close> variable
  set: the gate is passed on the branch \<^verbatim>\<open>master\<close> named by \<^verbatim>\<open>INPUT_DEFAULT_BRANCH\<close>, the
  tag is \<^verbatim>\<open>rel-1.2.3\<close> with the message \<^verbatim>\<open>Release 1.2.3\<close>, the tag's author is the one
  of \<^verbatim>\<open>INPUT_COMMIT_USER\<close> and \<^verbatim>\<open>INPUT_COMMIT_EMAIL\<close>, and the package is published
  with \<^verbatim>\<open>npm\<close>.
\<close>

theorem input_alias_fallback_witness:
  "map (\<lambda>c. (inv_command c, inv_args c)) (spawned (script alias_env sample_runtime))
     = [(''git'', [''rev-parse'', ''-q'', ''--verify'', ''refs/tags/rel-1.2.3'']),
        (''git'', [''config'', ''user.name'', ''release-bot'']),
        (''git'', [''config'', ''user.email'', ''bot@example.com'']),
        (''git'', [''tag'', ''-a'', ''-m'', ''Release 1.2.3'', ''rel-1.2.3'']),
        (''git'', [''push'', ''origin'', ''refs/tags/rel-1.2.3'']),
        (''npm'', [''publish'', ''--access'', ''public''])] \<and>
   exitCode (script alias_env sample_runtime) = 0 \<and>
   exitCode (script (alias_env(''INPUT_DEFAULT_BRANCH'' \<mapsto> ''main'')) sample_runtime) = 78 \<and>
   main alias_env sample_runtime initial
     = main (alias_env(''PUBLISH_WITH'' \<mapsto> ''npm'')) sample_runtime initial"
proof -
  let ?other = "alias_env(''INPUT_DEFAULT_BRANCH'' \<mapsto> ''main'')"
  note t = input_alias_fallback [where env = alias_env and rt = sample_runtime and s = initial
      and ev = sample_event]
  have unset: "alias_env ''COMMIT_PATTERN'' = None" "alias_env ''TAG_NAME'' = None"
    "alias_env ''TAG_MESSAGE'' = None" "alias_env ''COMMIT_USER'' = None"
    "alias_env ''COMMIT_EMAIL'' = None" "alias_env ''PUBLISH_WITH'' = None"
    "alias_env ''DEFAULT_BRANCH'' = None"
    by (simp_all add: alias_env_def)
  have given: "alias_env (''INPUT_'' @ ''COMMIT_PATTERN'') = Some default_pattern"
    "alias_env (''INPUT_'' @ ''TAG_NAME'') = Some ''rel-%s''"
    "alias_env (''INPUT_'' @ ''TAG_MESSAGE'') = Some ''Release %s''"
    "alias_env (''INPUT_'' @ ''COMMIT_USER'') = Some ''release-bot''"
    "alias_env (''INPUT_'' @ ''COMMIT_EMAIL'') = Some ''bot@example.com''"
    "alias_env (''INPUT_'' @ ''PUBLISH_WITH'') = Some ''npm''"
    "alias_env (''INPUT_'' @ ''DEFAULT_BRANCH'') = Some ''master''"
    by (simp_all add: alias_env_def)
  note value_of = t [THEN conjunct2, THEN conjunct2, THEN conjunct1, rule_format]
  have cp: "js_or (getEnv alias_env ''COMMIT_PATTERN'') default_pattern = default_pattern"
    using value_of [where nm = "''COMMIT_PATTERN''", OF unset(1) given(1)]
    by (simp add: default_pattern_def)
  have tn: "placeholderEnv alias_env ''TAG_NAME'' ''v%s'' = Inr ''rel-%s''"
    using value_of [where nm = "''TAG_NAME''", OF unset(2) given(2)] by simp
  have tm: "placeholderEnv alias_env ''TAG_MESSAGE'' ''v%s'' = Inr ''Release %s''"
    using value_of [where nm = "''TAG_MESSAGE''", OF unset(3) given(3)] by simp
  have cu: "js_or (getEnv alias_env ''COMMIT_USER'') ''octocat'' = ''release-bot''"
    using value_of [where nm = "''COMMIT_USER''", OF unset(4) given(4)] by simp
  have ce: "js_or (getEnv alias_env ''COMMIT_EMAIL'') ''octocat@example.com'' = ''bot@example.com''"
    using value_of [where nm = "''COMMIT_EMAIL''", OF unset(5) given(5)] by simp
  have pw: "js_or (getEnv alias_env ''PUBLISH_WITH'') ''yarn'' = ''npm''"
    using value_of [where nm = "''PUBLISH_WITH''", OF unset(6) given(6)] by simp
  have db: "js_or (getEnv alias_env ''DEFAULT_BRANCH'') ''master'' = ''master''"
    using value_of [where nm = "''DEFAULT_BRANCH''", OF unset(7) given(7)] by simp
  have e: "readJson sample_runtime (JSON_parse_event sample_runtime)
             (js_or (alias_env ''GITHUB_EVENT_PATH'') ''/github/workflow/event.json'') = Inr sample_event"
    by (simp add: js_or_def sample_event_read alias_env_def)
  have r: "ref sample_event = ''refs/heads/'' @ js_or (getEnv alias_env ''DEFAULT_BRANCH'') ''master''"
    by (simp add: db sample_event_def)
  have w: "js_or (alias_env ''GITHUB_WORKSPACE'') ''/github/workspace'' = ''/github/workspace''"
    by (simp add: js_or_def alias_env_def)
  have own: "name (owner (repository sample_event)) = ''octocat''"
    "email (owner (repository sample_event)) = ''octocat@example.com''"
    by (simp_all add: sample_event_def)
  have reached: "main alias_env sample_runtime initial =
        processDirectory sample_runtime ''/github/workspace''
          \<lparr>commitPattern = default_pattern, tagName = ''rel-%s'', tagMessage = ''Release %s'',
           tagAuthor = \<lparr>name = ''release-bot'', email = ''bot@example.com''\<rparr>,
           publishWith = ''npm''\<rparr>
          (commits sample_event) initial"
    using t [THEN conjunct2, THEN conjunct2, THEN conjunct2, THEN conjunct2, rule_format,
        OF e r tn tm]
    by (simp only: cp cu ce pw w own)
  have 1: "map (\<lambda>c. (inv_command c, inv_args c)) (spawned (script alias_env sample_runtime))
     = [(''git'', [''rev-parse'', ''-q'', ''--verify'', ''refs/tags/rel-1.2.3'']),
        (''git'', [''config'', ''user.name'', ''release-bot'']),
        (''git'', [''config'', ''user.email'', ''bot@example.com'']),
        (''git'', [''tag'', ''-a'', ''-m'', ''Release 1.2.3'', ''rel-1.2.3'']),
        (''git'', [''push'', ''origin'', ''refs/tags/rel-1.2.3'']),
        (''npm'', [''publish'', ''--access'', ''public''])]"
    unfolding script_def reached
    by (simp add: processDirectory_def createTag_def publishPackage_def run_def readJson_def
        Let_def sample_runtime_def sample_event_def sample_spawn_def release_rx_def is_space_def
        group1_def replace_placeholder_def initial_def)
  have 2: "exitCode (script alias_env sample_runtime) = 0"
    unfolding script_def reached
    by (simp add: processDirectory_def createTag_def publishPackage_def run_def readJson_def
        Let_def sample_runtime_def sample_event_def sample_spawn_def release_rx_def is_space_def
        group1_def replace_placeholder_def initial_def)
  have e': "readJson sample_runtime (JSON_parse_event sample_runtime)
             (js_or (?other ''GITHUB_EVENT_PATH'') ''/github/workflow/event.json'') = Inr sample_event"
    by (simp add: js_or_def sample_event_read alias_env_def)
  have db': "js_or (getEnv ?other ''DEFAULT_BRANCH'') ''master'' = ''main''"
    using input_alias_fallback [where env = ?other and nm = "''DEFAULT_BRANCH''" and v = "''main''"
        and d = "''master''"]
    by (simp add: alias_env_def)
  have r': "ref sample_event \<noteq> ''refs/heads/'' @ js_or (getEnv ?other ''DEFAULT_BRANCH'') ''master''"
    by (simp add: db' sample_event_def)
  have 3: "exitCode (script ?other sample_runtime) = 78"
    using input_alias_fallback [where env = ?other and rt = sample_runtime and s = initial
        and ev = sample_event, THEN conjunct2, THEN conjunct2, THEN conjunct2, THEN conjunct1,
        rule_format, OF e' r']
    by (simp add: script_def)
  have o: "''PUBLISH_WITH'' \<in> set option_names" by (simp add: option_names_def)
  have 4: "main alias_env sample_runtime initial
     = main (alias_env(''PUBLISH_WITH'' \<mapsto> ''npm'')) sample_runtime initial"
    using t [where nm = "''PUBLISH_WITH''", THEN conjunct1, rule_format, OF o unset(6)] given(6)
    by simp
  from 1 2 3 4 show ?thesis by simp
qed

subsection \<open>C6: a failed tagging does not stop the release\<close>

text \<open>
  Claim C6. Once the scan has approved the release, an error \<open>e\<close> of \<open>createTag\<close>,
  whatever it is (the \<open>NeutralExitError\<close> of an existing tag, the failure of the
  existence check, of the identity setup, of the tag creation or of the push), is
  caught by \<open>processDirectory\<close> and printed with \<^verbatim>\<open>console.error\<close>. The run goes on
  with \<open>publishPackage\<close>: its outcome is the outcome of the run, and with the
  strategies \<^verbatim>\<open>yarn\<close> and \<^verbatim>\<open>npm\<close> the publish command is the next command spawned.
\<close>

theorem tagging_failure_is_caught:
  assumes "readJson rt (JSON_parse_package rt) (path_join rt dir ''package.json'') = Inr (Some p)"
    and "version p = Some ver"
    and "checkCommit rt cfg cs ver s = (Inr True, s1)"
    and "createTag rt dir cfg ver s1 = (Inl e, s2)"
  shows "processDirectory rt dir cfg cs s =
           and_then (publishPackage rt dir cfg ver (console_error ''Failed to create the tag: '' e s2))
             (\<lambda>_ s3. (Inr (), console_log ''Package published.'' s3)) \<and>
         fst (processDirectory rt dir cfg cs s) =
           fst (publishPackage rt dir cfg ver (console_error ''Failed to create the tag: '' e s2)) \<and>
         ErrorLine ''Failed to create the tag: '' e \<in> set (console (snd (processDirectory rt dir cfg cs s))) \<and>
         (publishWith cfg = ''yarn'' \<or> publishWith cfg = ''npm'' \<longrightarrow>
            spawned (snd (processDirectory rt dir cfg cs s)) =
              spawned s2 @ [\<lparr>inv_cwd = dir, inv_command = publishWith cfg,
                 inv_args = (if publishWith cfg = ''yarn''
                             then [''publish'', ''--non-interactive'', ''--new-version'', ver]
                             else [''publish'', ''--access'', ''public''])\<rparr>])"
proof -
  let ?s = "console_error ''Failed to create the tag: '' e s2"
  let ?pub = "publishPackage rt dir cfg ver ?s"
  have eq: "processDirectory rt dir cfg cs s =
              and_then ?pub (\<lambda>_ s3. (Inr (), console_log ''Package published.'' s3))"
    using assms by (simp add: processDirectory_def Let_def)
  obtain r t where rt: "?pub = (r, t)" by (cases ?pub)
  have res: "fst (processDirectory rt dir cfg cs s) = r"
    and sp: "spawned (snd (processDirectory rt dir cfg cs s)) = spawned t"
    and co: "\<exists>l. console (snd (processDirectory rt dir cfg cs s)) = console t @ l"
    using eq rt by (cases r; simp)+
  from publishPackage_console [of rt dir cfg ver ?s] rt
  obtain l where "console t = console s2 @ [ErrorLine ''Failed to create the tag: '' e] @ l"
    by auto
  with co have line: "ErrorLine ''Failed to create the tag: '' e
                        \<in> set (console (snd (processDirectory rt dir cfg cs s)))"
    by auto
  have cmd: "spawned (snd (processDirectory rt dir cfg cs s)) =
              spawned s2 @ [\<lparr>inv_cwd = dir, inv_command = publishWith cfg,
                 inv_args = (if publishWith cfg = ''yarn''
                             then [''publish'', ''--non-interactive'', ''--new-version'', ver]
                             else [''publish'', ''--access'', ''public''])\<rparr>]"
    if "publishWith cfg = ''yarn'' \<or> publishWith cfg = ''npm''"
    using publishPackage_result [OF that, of rt dir ver ?s] rt sp by simp
  from eq res rt line cmd show ?thesis by simp
qed

theorem tagging_failure_is_caught_witness:
  "fst (processDirectory (sample_runtime\<lparr>spawn := constant_spawn 0 []\<rparr>) ''/github/workspace''
          sample_config (commits sample_event) initial) = Inr () \<and>
   map inv_command (spawned (snd (processDirectory (sample_runtime\<lparr>spawn := constant_spawn 0 []\<rparr>)
          ''/github/workspace'' sample_config (commits sample_event) initial)))
     = [''git'', ''yarn'']"
proof -
  let ?rt = "sample_runtime\<lparr>spawn := constant_spawn 0 []\<rparr>"
  let ?s1 = "console_log ''Found commit: Release 1.2.3'' initial"
  let ?s2 = "console_log ''Tag already exists: v1.2.3''
               ((console_log ''Executing: git rev-parse -q --verify refs/tags/v1.2.3'' ?s1)
                  \<lparr>spawned := [\<lparr>inv_cwd = ''/github/workspace'', inv_command = ''git'',
                       inv_args = [''rev-parse'', ''-q'', ''--verify'', ''refs/tags/v1.2.3'']\<rparr>]\<rparr>)"
  have v: "version \<lparr>version = Some ''1.2.3''\<rparr> = Some ''1.2.3''" by simp
  have t: "createTag ?rt ''/github/workspace'' sample_config ''1.2.3'' ?s1
             = (Inl (NeutralExitError []), ?s2)"
    by (simp add: createTag_def run_def Let_def sample_config_def replace_placeholder_def
        constant_spawn_def initial_def)
  have y: "publishWith sample_config = ''yarn''" by (simp add: sample_config_def)
  have pub: "fst (publishPackage ?rt ''/github/workspace'' sample_config ''1.2.3''
               (console_error ''Failed to create the tag: '' (NeutralExitError []) ?s2)) = Inr ()"
    by (simp add: publishPackage_def run_def Let_def sample_config_def constant_spawn_def)
  have sp: "spawned ?s2 = [\<lparr>inv_cwd = ''/github/workspace'', inv_command = ''git'',
                       inv_args = [''rev-parse'', ''-q'', ''--verify'', ''refs/tags/v1.2.3'']\<rparr>]"
    by simp
  note caught = tagging_failure_is_caught [OF sample_package_read v sample_scan t]
  note outcome = caught [THEN conjunct2, THEN conjunct1]
  note command = caught [THEN conjunct2, THEN conjunct2, THEN conjunct2]
  from outcome pub have 1: "fst (processDirectory ?rt ''/github/workspace''
          sample_config (commits sample_event) initial) = Inr ()"
    by simp
  from command y have "spawned (snd (processDirectory ?rt ''/github/workspace''
          sample_config (commits sample_event) initial)) =
       spawned ?s2 @ [\<lparr>inv_cwd = ''/github/workspace'', inv_command = ''yarn'',
          inv_args = [''publish'', ''--non-interactive'', ''--new-version'', ''1.2.3'']\<rparr>]"
    by simp
  then have 2: "map inv_command (spawned (snd (processDirectory ?rt ''/github/workspace''
          sample_config (commits sample_event) initial))) = [''git'', ''yarn'']"
    by (simp only: sp) simp
  from 1 2 show ?thesis by simp
qed

subsection \<open>C7: no release commit\<close>

text \<open>
  Claim C7. The run has got as far as the scan: the event is read, its \<^verbatim>\<open>ref\<close> is
  \<^verbatim>\<open>refs/heads/<default-branch>\<close>, \<open>placeholderEnv\<close> has accepted both tag templates, the
  manifest has a version and the commit pattern is a regular expression. When no
  commit message matches the pattern with group 1 equal to the version, \<open>main\<close>
  resolves after printing one line, the exit code is 0 and no command was spawned.
\<close>

theorem no_release_commit_no_action:
  assumes "readJson rt (JSON_parse_event rt)
             (js_or (env ''GITHUB_EVENT_PATH'') ''/github/workflow/event.json'') = Inr ev"
    and "ref ev = ''refs/heads/'' @ js_or (getEnv env ''DEFAULT_BRANCH'') ''master''"
    and "placeholderEnv env ''TAG_NAME'' ''v%s'' = Inr tn"
    and "placeholderEnv env ''TAG_MESSAGE'' ''v%s'' = Inr tm"
    and "readJson rt (JSON_parse_package rt)
           (path_join rt (js_or (env ''GITHUB_WORKSPACE'') ''/github/workspace'') ''package.json'')
           = Inr (Some p)"
    and "version p = Some ver"
    and "RegExp rt (js_or (getEnv env ''COMMIT_PATTERN'') default_pattern) = Inr rx"
    and "\<forall>c \<in> set (commits ev). \<not> (\<exists>m. rx (message c) = Some m \<and> group1 m = Some ver)"
  shows "main env rt s =
           (Inr (), console_log
              ''No release command detected in the commit message, finishing the job.'' s) \<and>
         exitCode (script env rt) = 0 \<and>
         spawned (script env rt) = []"
proof -
  have m: "main env rt t =
           (Inr (), console_log
              ''No release command detected in the commit message, finishing the job.'' t)" for t
  proof -
    from main_gate_passed [OF assms(1-4), of t] obtain cfg where
      c: "commitPattern cfg = js_or (getEnv env ''COMMIT_PATTERN'') default_pattern" and
      r: "main env rt t =
            processDirectory rt (js_or (env ''GITHUB_WORKSPACE'') ''/github/workspace'') cfg
              (commits ev) t"
      by blast
    from assms(7) c have "RegExp rt (commitPattern cfg) = Inr rx" by simp
    then have "checkCommit rt cfg (commits ev) ver t = (Inr False, t)"
      using assms(8) by (rule checkCommit_none)
    with processDirectory_no_release [OF assms(5,6)] r show ?thesis by simp
  qed
  show ?thesis by (simp add: m script_def initial_def)
qed

theorem no_release_commit_no_action_witness:
  "exitCode (script Map.empty (sample_runtime\<lparr>JSON_parse_package := next_manifest\<rparr>)) = 0 \<and>
   spawned (script Map.empty (sample_runtime\<lparr>JSON_parse_package := next_manifest\<rparr>)) = []"
proof -
  let ?rt = "sample_runtime\<lparr>JSON_parse_package := next_manifest\<rparr>"
  have e: "readJson ?rt (JSON_parse_event ?rt)
            (js_or (Map.empty ''GITHUB_EVENT_PATH'') ''/github/workflow/event.json'') = Inr sample_event"
    by (simp add: js_or_def readJson_def sample_runtime_def)
  have r: "ref sample_event = ''refs/heads/'' @ js_or (getEnv Map.empty ''DEFAULT_BRANCH'') ''master''"
    by (simp add: sample_event_def js_or_def getEnv_def)
  have tn: "placeholderEnv Map.empty ''TAG_NAME'' ''v%s'' = Inr ''v%s''"
    by (simp add: placeholderEnv_def getEnv_def)
  have tm: "placeholderEnv Map.empty ''TAG_MESSAGE'' ''v%s'' = Inr ''v%s''"
    by (simp add: placeholderEnv_def getEnv_def)
  have p: "readJson ?rt (JSON_parse_package ?rt)
           (path_join ?rt (js_or (Map.empty ''GITHUB_WORKSPACE'') ''/github/workspace'') ''package.json'')
           = Inr (Some \<lparr>version = Some ''2.0.0''\<rparr>)"
    by (simp add: js_or_def readJson_def sample_runtime_def next_manifest_def)
  have v: "version \<lparr>version = Some ''2.0.0''\<rparr> = Some ''2.0.0''" by simp
  have x: "RegExp ?rt (js_or (getEnv Map.empty ''COMMIT_PATTERN'') default_pattern) = Inr release_rx"
    by (simp add: js_or_def getEnv_def sample_runtime_def default_pattern_def)
  have n: "\<forall>c \<in> set (commits sample_event).
             \<not> (\<exists>m. release_rx (message c) = Some m \<and> group1 m = Some ''2.0.0'')"
    by (simp add: sample_event_def release_rx_examples group1_def)
  show ?thesis
    using no_release_commit_no_action [OF e r tn tm p v x n] by simp
qed

subsection \<open>C8: the branch gate\<close>

text \<open>
  Claim C8. When the event file is read and its \<^verbatim>\<open>ref\<close> is not
  \<^verbatim>\<open>refs/heads/<default-branch>\<close>, where the default branch is \<^verbatim>\<open>master\<close> unless
  \<^verbatim>\<open>DEFAULT_BRANCH\<close> says otherwise, \<open>main\<close> fails at the gate with a
  \<open>NeutralExitError\<close>, having only printed one line; the exit code is 78 and no
  command was spawned.
\<close>

theorem branch_gate_is_neutral:
  assumes "readJson rt (JSON_parse_event rt)
             (js_or (env ''GITHUB_EVENT_PATH'') ''/github/workflow/event.json'') = Inr ev"
    and "ref ev \<noteq> ''refs/heads/'' @ js_or (getEnv env ''DEFAULT_BRANCH'') ''master''"
  shows "main env rt s =
           (Inl (NeutralExitError []),
            console_log (''Ref '' @ ref ev @ '' is not the default branch: ''
               @ js_or (getEnv env ''DEFAULT_BRANCH'') ''master''
               @ '', you must run this action on ''
               @ js_or (getEnv env ''DEFAULT_BRANCH'') ''master'' @ '' branch.'') s) \<and>
         exitCode (script env rt) = 78 \<and>
         spawned (script env rt) = [] \<and>
         (getEnv env ''DEFAULT_BRANCH'' = None \<longrightarrow>
            js_or (getEnv env ''DEFAULT_BRANCH'') ''master'' = ''master'')"
proof -
  have m: "\<And>t. main env rt t =
           (Inl (NeutralExitError []),
            console_log (''Ref '' @ ref ev @ '' is not the default branch: ''
               @ js_or (getEnv env ''DEFAULT_BRANCH'') ''master''
               @ '', you must run this action on ''
               @ js_or (getEnv env ''DEFAULT_BRANCH'') ''master'' @ '' branch.'') t)"
    using assms by (simp add: main_def Let_def)
  show ?thesis
    by (simp add: m script_def initial_def js_or_def)
qed

theorem branch_gate_is_neutral_witness:
  "exitCode (script [''DEFAULT_BRANCH'' \<mapsto> ''main''] sample_runtime) = 78 \<and>
   spawned (script [''DEFAULT_BRANCH'' \<mapsto> ''main''] sample_runtime) = []"
proof -
  have e: "readJson sample_runtime (JSON_parse_event sample_runtime)
             (js_or ([''DEFAULT_BRANCH'' \<mapsto> ''main''] ''GITHUB_EVENT_PATH'')
                ''/github/workflow/event.json'') = Inr sample_event"
    by (simp add: js_or_def sample_event_read)
  have r: "ref sample_event \<noteq>
             ''refs/heads/'' @ js_or (getEnv [''DEFAULT_BRANCH'' \<mapsto> ''main''] ''DEFAULT_BRANCH'') ''master''"
    by (simp add: sample_event_def js_or_def getEnv_def)
  show ?thesis
    using branch_gate_is_neutral [OF e r] by simp
qed

subsection \<open>C9: empty tag templates\<close>

text \<open>
  Claim C9, as amended. A plain variable \<^verbatim>\<open>TAG_NAME\<close> or \<^verbatim>\<open>TAG_MESSAGE\<close> that is set
  to the empty string is treated as unset: the \<^verbatim>\<open>INPUT_\<close> variable is consulted as it
  is for an unset one, and the run is the run without the plain variable. When the
  value found that way is undefined or empty too, the default is used and no error
  is raised; in \<open>main\<close> the default of both templates is \<^verbatim>\<open>v%s\<close>. The check for the
  placeholder applies to a value that is not empty only, be it from the plain
  variable or from the \<^verbatim>\<open>INPUT_\<close> variable.
\<close>

theorem empty_template_is_absent:
  "(getEnv env nm = Some [] \<longrightarrow> placeholderEnv env nm d = Inr d) \<and>
   (env nm = Some [] \<longrightarrow> placeholderEnv env nm d = placeholderEnv (env(nm := None)) nm d) \<and>
   (env nm = Some [] \<longrightarrow> env (''INPUT_'' @ nm) = None \<or> env (''INPUT_'' @ nm) = Some [] \<longrightarrow>
      placeholderEnv env nm d = Inr d) \<and>
   (placeholderEnv env nm d = Inl e \<longrightarrow>
      (\<exists>str. getEnv env nm = Some str \<and> str \<noteq> [] \<and> \<not> str_includes str ''%s'' \<and>
             e = PlainError (''missing placeholder in variable: '' @ nm))) \<and>
   (nm = ''TAG_NAME'' \<or> nm = ''TAG_MESSAGE'' \<longrightarrow> env nm = Some [] \<longrightarrow>
      main env rt s = main (env(nm := None)) rt s) \<and>
   (readJson rt (JSON_parse_event rt)
      (js_or (env ''GITHUB_EVENT_PATH'') ''/github/workflow/event.json'') = Inr ev \<longrightarrow>
    ref ev = ''refs/heads/'' @ js_or (getEnv env ''DEFAULT_BRANCH'') ''master'' \<longrightarrow>
    getEnv env ''TAG_NAME'' = None \<or> getEnv env ''TAG_NAME'' = Some [] \<longrightarrow>
    getEnv env ''TAG_MESSAGE'' = None \<or> getEnv env ''TAG_MESSAGE'' = Some [] \<longrightarrow>
      main env rt s =
        processDirectory rt (js_or (env ''GITHUB_WORKSPACE'') ''/github/workspace'')
          \<lparr>commitPattern = js_or (getEnv env ''COMMIT_PATTERN'') default_pattern,
           tagName = ''v%s'', tagMessage = ''v%s'',
           tagAuthor = \<lparr>name = js_or (getEnv env ''COMMIT_USER'') (name (owner (repository ev))),
                        email = js_or (getEnv env ''COMMIT_EMAIL'') (email (owner (repository ev)))\<rparr>,
           publishWith = js_or (getEnv env ''PUBLISH_WITH'') ''yarn''\<rparr>
          (commits ev) s)"
proof (intro conjI impI)
  show "placeholderEnv env nm d = Inr d" if "getEnv env nm = Some []"
    using that by (simp add: placeholderEnv_def)
  have g: "getEnv (env(nm := None)) nm = getEnv env nm" if "env nm = Some []"
    using that alias_differs [of nm] by (simp add: getEnv_def)
  show "placeholderEnv env nm d = placeholderEnv (env(nm := None)) nm d" if "env nm = Some []"
    using g [OF that] by (simp add: placeholderEnv_def)
  show "placeholderEnv env nm d = Inr d"
    if "env nm = Some []" and "env (''INPUT_'' @ nm) = None \<or> env (''INPUT_'' @ nm) = Some []"
    using that by (auto simp: placeholderEnv_def getEnv_def)
  show "\<exists>str. getEnv env nm = Some str \<and> str \<noteq> [] \<and> \<not> str_includes str ''%s'' \<and>
             e = PlainError (''missing placeholder in variable: '' @ nm)"
    if "placeholderEnv env nm d = Inl e"
    using that by (auto simp: placeholderEnv_def split: option.splits if_splits)
  show "main env rt s = main (env(nm := None)) rt s"
    if n: "nm = ''TAG_NAME'' \<or> nm = ''TAG_MESSAGE''" and e: "env nm = Some []"
  proof (rule main_env_cong)
    from n show "env ''GITHUB_WORKSPACE'' = (env(nm := None)) ''GITHUB_WORKSPACE''" by auto
    from n show "env ''GITHUB_EVENT_PATH'' = (env(nm := None)) ''GITHUB_EVENT_PATH''" by auto
    from n have o: "nm \<in> set option_names" by (auto simp: option_names_def)
    show "\<forall>m \<in> set option_names. getEnv env m = getEnv (env(nm := None)) m"
    proof
      fix m assume "m \<in> set option_names"
      show "getEnv env m = getEnv (env(nm := None)) m"
      proof (cases "m = nm")
        case True
        then show ?thesis using g [OF e] by simp
      next
        case False
        then show ?thesis using getEnv_other [OF False option_name_no_alias [OF o]] by simp
      qed
    qed
  qed
  show "main env rt s =
        processDirectory rt (js_or (env ''GITHUB_WORKSPACE'') ''/github/workspace'')
          \<lparr>commitPattern = js_or (getEnv env ''COMMIT_PATTERN'') default_pattern,
           tagName = ''v%s'', tagMessage = ''v%s'',
           tagAuthor = \<lparr>name = js_or (getEnv env ''COMMIT_USER'') (name (owner (repository ev))),
                        email = js_or (getEnv env ''COMMIT_EMAIL'') (email (owner (repository ev)))\<rparr>,
           publishWith = js_or (getEnv env ''PUBLISH_WITH'') ''yarn''\<rparr>
          (commits ev) s"
    if ev: "readJson rt (JSON_parse_event rt)
              (js_or (env ''GITHUB_EVENT_PATH'') ''/github/workflow/event.json'') = Inr ev"
      and r: "ref ev = ''refs/heads/'' @ js_or (getEnv env ''DEFAULT_BRANCH'') ''master''"
      and tn: "getEnv env ''TAG_NAME'' = None \<or> getEnv env ''TAG_NAME'' = Some []"
      and tm: "getEnv env ''TAG_MESSAGE'' = None \<or> getEnv env ''TAG_MESSAGE'' = Some []"
  proof -
    from tn have 1: "placeholderEnv env ''TAG_NAME'' ''v%s'' = Inr ''v%s''"
      by (auto simp: placeholderEnv_def)
    from tm have 2: "placeholderEnv env ''TAG_MESSAGE'' ''v%s'' = Inr ''v%s''"
      by (auto simp: placeholderEnv_def)
    show ?thesis by (rule main_gate_config [OF ev r 1 2])
  qed
qed

text \<open>
  Claim C9 as stated fails: with \<^verbatim>\<open>TAG_NAME\<close> set to the empty string and
  \<^verbatim>\<open>INPUT_TAG_NAME=release\<close> the error for the missing placeholder is raised and the
  run ends with exit code 1, and with \<^verbatim>\<open>INPUT_TAG_NAME=t-%s\<close> the template is
  \<^verbatim>\<open>t-%s\<close>, not the default.
\<close>

theorem empty_template_alias_checked:
  "placeholderEnv [''TAG_NAME'' \<mapsto> [], ''INPUT_TAG_NAME'' \<mapsto> ''release''] ''TAG_NAME'' ''v%s''
     = Inl (PlainError ''missing placeholder in variable: TAG_NAME'') \<and>
   exitCode (script [''TAG_NAME'' \<mapsto> [], ''INPUT_TAG_NAME'' \<mapsto> ''release''] sample_runtime) = 1 \<and>
   placeholderEnv [''TAG_NAME'' \<mapsto> [], ''INPUT_TAG_NAME'' \<mapsto> ''t-%s''] ''TAG_NAME'' ''v%s''
     = Inr ''t-%s''"
  by (simp add: script_def main_def readJson_def Let_def js_or_def handler_def
      getEnv_def placeholderEnv_def sample_runtime_def sample_event_def initial_def)

theorem empty_template_is_absent_witness:
  "placeholderEnv [''INPUT_TAG_NAME'' \<mapsto> []] ''TAG_NAME'' ''v%s'' = Inr ''v%s'' \<and>
   placeholderEnv [''TAG_NAME'' \<mapsto> []] ''TAG_NAME'' ''v%s'' = Inr ''v%s'' \<and>
   placeholderEnv [''TAG_MESSAGE'' \<mapsto> ''release''] ''TAG_MESSAGE'' ''v%s''
     = Inl (PlainError ''missing placeholder in variable: TAG_MESSAGE'') \<and>
   main [''TAG_NAME'' \<mapsto> []] sample_runtime initial = main Map.empty sample_runtime initial \<and>
   main [''TAG_NAME'' \<mapsto> []] sample_runtime initial
     = processDirectory sample_runtime ''/github/workspace'' sample_config (commits sample_event) initial"
proof -
  let ?env = "[''TAG_NAME'' \<mapsto> []] :: string \<rightharpoonup> string"
  have 1: "placeholderEnv [''INPUT_TAG_NAME'' \<mapsto> []] ''TAG_NAME'' ''v%s'' = Inr ''v%s''"
    using empty_template_is_absent [of "[''INPUT_TAG_NAME'' \<mapsto> []]" "''TAG_NAME''" "''v%s''"]
    by (simp add: getEnv_def)
  have 2: "placeholderEnv ?env ''TAG_NAME'' ''v%s'' = Inr ''v%s''"
    using empty_template_is_absent [of ?env "''TAG_NAME''" "''v%s''"]
    by (simp add: placeholderEnv_def getEnv_def)
  have p: "placeholderEnv [''TAG_MESSAGE'' \<mapsto> ''release''] ''TAG_MESSAGE'' ''v%s''
             = Inl (PlainError ''missing placeholder in variable: TAG_MESSAGE'')"
    by (simp add: placeholderEnv_def getEnv_def)
  have 3: "\<exists>str. getEnv [''TAG_MESSAGE'' \<mapsto> ''release''] ''TAG_MESSAGE'' = Some str \<and> str \<noteq> [] \<and>
             \<not> str_includes str ''%s''"
    using empty_template_is_absent [of "[''TAG_MESSAGE'' \<mapsto> ''release'']" "''TAG_MESSAGE''" "''v%s''"
        "PlainError ''missing placeholder in variable: TAG_MESSAGE''"] p
    by blast
  have 4: "main ?env sample_runtime initial = main Map.empty sample_runtime initial"
    using empty_template_is_absent [of ?env "''TAG_NAME''" _ _ sample_runtime initial]
    by simp
  have e: "readJson sample_runtime (JSON_parse_event sample_runtime)
             (js_or (?env ''GITHUB_EVENT_PATH'') ''/github/workflow/event.json'') = Inr sample_event"
    by (simp add: js_or_def sample_event_read)
  have r: "ref sample_event = ''refs/heads/'' @ js_or (getEnv ?env ''DEFAULT_BRANCH'') ''master''"
    by (simp add: sample_event_def js_or_def getEnv_def)
  have tn: "getEnv ?env ''TAG_NAME'' = None \<or> getEnv ?env ''TAG_NAME'' = Some []"
    by (simp add: getEnv_def)
  have tm: "getEnv ?env ''TAG_MESSAGE'' = None \<or> getEnv ?env ''TAG_MESSAGE'' = Some []"
    by (simp add: getEnv_def)
  note pinned = empty_template_is_absent [of ?env _ _ _ sample_runtime initial sample_event,
      THEN conjunct2, THEN conjunct2, THEN conjunct2, THEN conjunct2, THEN conjunct2,
      rule_format, OF e r tn tm]
  have 5: "main ?env sample_runtime initial
     = processDirectory sample_runtime ''/github/workspace'' sample_config (commits sample_event) initial"
    using pinned
    by (simp add: js_or_def getEnv_def sample_config_def sample_event_def)
  from 1 2 3 p 4 5 show ?thesis by simp
qed

subsection \<open>C10: the exit code of the existence check\<close>

text \<open>
  Claim C10. In the existence check of \<open>createTag\<close>, an exit of \<^verbatim>\<open>git rev-parse\<close> with
  code 1 means that the tag does not exist, and tagging goes on: \<open>createTag\<close> is then
  the sequence of \<^verbatim>\<open>git config user.name\<close>, \<^verbatim>\<open>git config user.email\<close>, \<^verbatim>\<open>git tag\<close> and
  \<^verbatim>\<open>git push\<close>, each run if the one before it succeeded, and when these four exit with
  code 0 it resolves, having spawned the five commands in this order. An exit with
  any other code but 0 makes \<open>createTag\<close> fail with that \<open>ExitError\<close>, and a launch
  failure makes it fail with the error \<^verbatim>\<open>command failed: git\<close>; in both cases no
  further command is spawned.
\<close>

theorem rev_parse_exit_code_one:
  "(spawn rt (spawned s)
      \<lparr>inv_cwd = dir, inv_command = ''git'',
       inv_args = [''rev-parse'', ''-q'', ''--verify'',
                   ''refs/tags/'' @ replace_placeholder (tagName cfg) ver]\<rparr> = Exit (Some 1) err \<longrightarrow>
      (\<exists>more. spawned (snd (createTag rt dir cfg ver s)) =
         spawned s @
         [\<lparr>inv_cwd = dir, inv_command = ''git'',
           inv_args = [''rev-parse'', ''-q'', ''--verify'',
                       ''refs/tags/'' @ replace_placeholder (tagName cfg) ver]\<rparr>,
          \<lparr>inv_cwd = dir, inv_command = ''git'',
           inv_args = [''config'', ''user.name'', name (tagAuthor cfg)]\<rparr>] @ more)) \<and>
   (spawn rt (spawned s)
      \<lparr>inv_cwd = dir, inv_command = ''git'',
       inv_args = [''rev-parse'', ''-q'', ''--verify'',
                   ''refs/tags/'' @ replace_placeholder (tagName cfg) ver]\<rparr> = Exit code err \<longrightarrow>
    code \<noteq> Some 0 \<longrightarrow> code \<noteq> Some 1 \<longrightarrow>
      fst (createTag rt dir cfg ver s) = Inl (ExitError code) \<and>
      spawned (snd (createTag rt dir cfg ver s)) =
         spawned s @
         [\<lparr>inv_cwd = dir, inv_command = ''git'',
           inv_args = [''rev-parse'', ''-q'', ''--verify'',
                       ''refs/tags/'' @ replace_placeholder (tagName cfg) ver]\<rparr>]) \<and>
   (spawn rt (spawned s)
      \<lparr>inv_cwd = dir, inv_command = ''git'',
       inv_args = [''rev-parse'', ''-q'', ''--verify'',
                   ''refs/tags/'' @ replace_placeholder (tagName cfg) ver]\<rparr> = LaunchError \<longrightarrow>
      fst (createTag rt dir cfg ver s) = Inl (PlainError ''command failed: git'') \<and>
      spawned (snd (createTag rt dir cfg ver s)) =
         spawned s @
         [\<lparr>inv_cwd = dir, inv_command = ''git'',
           inv_args = [''rev-parse'', ''-q'', ''--verify'',
                       ''refs/tags/'' @ replace_placeholder (tagName cfg) ver]\<rparr>]) \<and>
   (spawn rt (spawned s)
      \<lparr>inv_cwd = dir, inv_command = ''git'',
       inv_args = [''rev-parse'', ''-q'', ''--verify'',
                   ''refs/tags/'' @ replace_placeholder (tagName cfg) ver]\<rparr> = Exit (Some 1) err \<longrightarrow>
      createTag rt dir cfg ver s =
        and_then (run rt dir ''git'' [''config'', ''user.name'', name (tagAuthor cfg)]
                    (snd (run rt dir ''git''
                            [''rev-parse'', ''-q'', ''--verify'',
                             ''refs/tags/'' @ replace_placeholder (tagName cfg) ver] s)))
          (\<lambda>_ s2.
        and_then (run rt dir ''git'' [''config'', ''user.email'', email (tagAuthor cfg)] s2)
          (\<lambda>_ s3.
        and_then (run rt dir ''git''
                    [''tag'', ''-a'', ''-m'', replace_placeholder (tagMessage cfg) ver,
                     replace_placeholder (tagName cfg) ver] s3)
          (\<lambda>_ s4.
        and_then (run rt dir ''git''
                    [''push'', ''origin'', ''refs/tags/'' @ replace_placeholder (tagName cfg) ver] s4)
          (\<lambda>_ s5.
           (Inr (), console_log (''Tag has been created successfully: ''
                                   @ replace_placeholder (tagName cfg) ver) s5)))))) \<and>
   (spawn rt (spawned s)
      \<lparr>inv_cwd = dir, inv_command = ''git'',
       inv_args = [''rev-parse'', ''-q'', ''--verify'',
                   ''refs/tags/'' @ replace_placeholder (tagName cfg) ver]\<rparr> = Exit (Some 1) err \<longrightarrow>
    spawn rt
      (spawned s @
       [\<lparr>inv_cwd = dir, inv_command = ''git'',
         inv_args = [''rev-parse'', ''-q'', ''--verify'',
                     ''refs/tags/'' @ replace_placeholder (tagName cfg) ver]\<rparr>])
      \<lparr>inv_cwd = dir, inv_command = ''git'',
       inv_args = [''config'', ''user.name'', name (tagAuthor cfg)]\<rparr> = Exit (Some 0) e1 \<longrightarrow>
    spawn rt
      (spawned s @
       [\<lparr>inv_cwd = dir, inv_command = ''git'',
         inv_args = [''rev-parse'', ''-q'', ''--verify'',
                     ''refs/tags/'' @ replace_placeholder (tagName cfg) ver]\<rparr>,
        \<lparr>inv_cwd = dir, inv_command = ''git'',
         inv_args = [''config'', ''user.name'', name (tagAuthor cfg)]\<rparr>])
      \<lparr>inv_cwd = dir, inv_command = ''git'',
       inv_args = [''config'', ''user.email'', email (tagAuthor cfg)]\<rparr> = Exit (Some 0) e2 \<longrightarrow>
    spawn rt
      (spawned s @
       [\<lparr>inv_cwd = dir, inv_command = ''git'',
         inv_args = [''rev-parse'', ''-q'', ''--verify'',
                     ''refs/tags/'' @ replace_placeholder (tagName cfg) ver]\<rparr>,
        \<lparr>inv_cwd = dir, inv_command = ''git'',
         inv_args = [''config'', ''user.name'', name (tagAuthor cfg)]\<rparr>,
        \<lparr>inv_cwd = dir, inv_command = ''git'',
         inv_args = [''config'', ''user.email'', email (tagAuthor cfg)]\<rparr>])
      \<lparr>inv_cwd = dir, inv_command = ''git'',
       inv_args = [''tag'', ''-a'', ''-m'', replace_placeholder (tagMessage cfg) ver,
                   replace_placeholder (tagName cfg) ver]\<rparr> = Exit (Some 0) e3 \<longrightarrow>
    spawn rt
      (spawned s @
       [\<lparr>inv_cwd = dir, inv_command = ''git'',
         inv_args = [''rev-parse'', ''-q'', ''--verify'',
                     ''refs/tags/'' @ replace_placeholder (tagName cfg) ver]\<rparr>,
        \<lparr>inv_cwd = dir, inv_command = ''git'',
         inv_args = [''config'', ''user.name'', name (tagAuthor cfg)]\<rparr>,
        \<lparr>inv_cwd = dir, inv_command = ''git'',
         inv_args = [''config'', ''user.email'', email (tagAuthor cfg)]\<rparr>,
        \<lparr>inv_cwd = dir, inv_command = ''git'',
         inv_args = [''tag'', ''-a'', ''-m'', replace_placeholder (tagMessage cfg) ver,
                     replace_placeholder (tagName cfg) ver]\<rparr>])
      \<lparr>inv_cwd = dir, inv_command = ''git'',
       inv_args = [''push'', ''origin'',
                   ''refs/tags/'' @ replace_placeholder (tagName cfg) ver]\<rparr> = Exit (Some 0) e4 \<longrightarrow>
      fst (createTag rt dir cfg ver s) = Inr () \<and>
      spawned (snd (createTag rt dir cfg ver s)) =
        spawned s @
        [\<lparr>inv_cwd = dir, inv_command = ''git'',
          inv_args = [''rev-parse'', ''-q'', ''--verify'',
                      ''refs/tags/'' @ replace_placeholder (tagName cfg) ver]\<rparr>,
         \<lparr>inv_cwd = dir, inv_command = ''git'',
          inv_args = [''config'', ''user.name'', name (tagAuthor cfg)]\<rparr>,
         \<lparr>inv_cwd = dir, inv_command = ''git'',
          inv_args = [''config'', ''user.email'', email (tagAuthor cfg)]\<rparr>,
         \<lparr>inv_cwd = dir, inv_command = ''git'',
          inv_args = [''tag'', ''-a'', ''-m'', replace_placeholder (tagMessage cfg) ver,
                      replace_placeholder (tagName cfg) ver]\<rparr>,
         \<lparr>inv_cwd = dir, inv_command = ''git'',
          inv_args = [''push'', ''origin'',
                      ''refs/tags/'' @ replace_placeholder (tagName cfg) ver]\<rparr>] \<and>
      last (console (snd (createTag rt dir cfg ver s))) =
        Log (''Tag has been created successfully: '' @ replace_placeholder (tagName cfg) ver))"
proof -
  let ?tag = "replace_placeholder (tagName cfg) ver"
  let ?msg = "replace_placeholder (tagMessage cfg) ver"
  let ?args = "[''rev-parse'', ''-q'', ''--verify'', ''refs/tags/'' @ ?tag]"
  let ?a1 = "[''config'', ''user.name'', name (tagAuthor cfg)]"
  let ?a2 = "[''config'', ''user.email'', email (tagAuthor cfg)]"
  let ?a3 = "[''tag'', ''-a'', ''-m'', ?msg, ?tag]"
  let ?a4 = "[''push'', ''origin'', ''refs/tags/'' @ ?tag]"
  let ?call = "\<lparr>inv_cwd = dir, inv_command = ''git'', inv_args = ?args\<rparr>"
  let ?c1 = "\<lparr>inv_cwd = dir, inv_command = ''git'', inv_args = ?a1\<rparr>"
  let ?c2 = "\<lparr>inv_cwd = dir, inv_command = ''git'', inv_args = ?a2\<rparr>"
  let ?c3 = "\<lparr>inv_cwd = dir, inv_command = ''git'', inv_args = ?a3\<rparr>"
  let ?c4 = "\<lparr>inv_cwd = dir, inv_command = ''git'', inv_args = ?a4\<rparr>"
  obtain r s1 where first: "run rt dir ''git'' ?args s = (r, s1)"
    by (cases "run rt dir ''git'' ?args s")
  have sp1: "spawned s1 = spawned s @ [?call]"
    using run_spawned [of rt dir "''git''" ?args s] first by simp
  have cont: "createTag rt dir cfg ver s =
        and_then (run rt dir ''git'' ?a1 s1) (\<lambda>_ s2.
        and_then (run rt dir ''git'' ?a2 s2) (\<lambda>_ s3.
        and_then (run rt dir ''git'' ?a3 s3) (\<lambda>_ s4.
        and_then (run rt dir ''git'' ?a4 s4) (\<lambda>_ s5.
           (Inr (), console_log (''Tag has been created successfully: '' @ ?tag) s5)))))"
    if "spawn rt (spawned s) ?call = Exit (Some 1) err"
  proof -
    from run_exit_failure [OF that] first have r: "r = Inl (ExitError (Some 1))" by simp
    show ?thesis using first r by (simp add: createTag_def Let_def)
  qed
  have one: "\<exists>more. spawned (snd (createTag rt dir cfg ver s)) = spawned s @ [?call, ?c1] @ more"
    if h: "spawn rt (spawned s) ?call = Exit (Some 1) err"
  proof -
    obtain r2 s2 where second: "run rt dir ''git'' ?a1 s1 = (r2, s2)"
      by (cases "run rt dir ''git'' ?a1 s1")
    have sp2: "spawned s2 = spawned s @ [?call, ?c1]"
      using run_spawned [of rt dir "''git''" ?a1 s1] second sp1 by simp
    have ext: "\<exists>l. spawned (snd (and_then (r2, s2) f)) = spawned s2 @ l"
      if "\<And>x t. \<exists>l. spawned (snd (f x t)) = spawned t @ l" for f :: "bool \<Rightarrow> state \<Rightarrow> unit result"
      using that by (intro and_then_spawned) auto
    have "\<exists>l. spawned (snd (createTag rt dir cfg ver s)) = spawned s2 @ l"
      unfolding cont [OF h] second
      by (intro ext and_then_run_extends, simp)
    with sp2 show ?thesis by auto
  qed
  have all: "fst (createTag rt dir cfg ver s) = Inr () \<and>
      spawned (snd (createTag rt dir cfg ver s)) = spawned s @ [?call, ?c1, ?c2, ?c3, ?c4] \<and>
      last (console (snd (createTag rt dir cfg ver s))) =
        Log (''Tag has been created successfully: '' @ ?tag)"
    if h: "spawn rt (spawned s) ?call = Exit (Some 1) err"
      and h1: "spawn rt (spawned s @ [?call]) ?c1 = Exit (Some 0) e1"
      and h2: "spawn rt (spawned s @ [?call, ?c1]) ?c2 = Exit (Some 0) e2"
      and h3: "spawn rt (spawned s @ [?call, ?c1, ?c2]) ?c3 = Exit (Some 0) e3"
      and h4: "spawn rt (spawned s @ [?call, ?c1, ?c2, ?c3]) ?c4 = Exit (Some 0) e4"
  proof -
    from h1 sp1 have "spawn rt (spawned s1) ?c1 = Exit (Some 0) e1" by simp
    from run_success [OF this] obtain s2 where
      r1: "run rt dir ''git'' ?a1 s1 = (Inr True, s2)" and
      sp2: "spawned s2 = spawned s @ [?call, ?c1]"
      using sp1 by auto
    from h2 sp2 have "spawn rt (spawned s2) ?c2 = Exit (Some 0) e2" by simp
    from run_success [OF this] obtain s3 where
      r2: "run rt dir ''git'' ?a2 s2 = (Inr True, s3)" and
      sp3: "spawned s3 = spawned s @ [?call, ?c1, ?c2]"
      using sp2 by auto
    from h3 sp3 have "spawn rt (spawned s3) ?c3 = Exit (Some 0) e3" by simp
    from run_success [OF this] obtain s4 where
      r3: "run rt dir ''git'' ?a3 s3 = (Inr True, s4)" and
      sp4: "spawned s4 = spawned s @ [?call, ?c1, ?c2, ?c3]"
      using sp3 by auto
    from h4 sp4 have "spawn rt (spawned s4) ?c4 = Exit (Some 0) e4" by simp
    from run_success [OF this] obtain s5 where
      r4: "run rt dir ''git'' ?a4 s4 = (Inr True, s5)" and
      sp5: "spawned s5 = spawned s @ [?call, ?c1, ?c2, ?c3, ?c4]"
      using sp4 by auto
    have "createTag rt dir cfg ver s =
            (Inr (), console_log (''Tag has been created successfully: '' @ ?tag) s5)"
      unfolding cont [OF h] using r1 r2 r3 r4 by simp
    with sp5 show ?thesis by simp
  qed
  have other: "fst (createTag rt dir cfg ver s) = Inl (ExitError code) \<and>
               spawned (snd (createTag rt dir cfg ver s)) = spawned s @ [?call]"
    if "spawn rt (spawned s) ?call = Exit code err" and "code \<noteq> Some 0" and "code \<noteq> Some 1"
  proof -
    from run_exit_failure [OF that(1,2)] first have "r = Inl (ExitError code)" by simp
    with first sp1 that(3) show ?thesis by (simp add: createTag_def Let_def)
  qed
  have launch: "fst (createTag rt dir cfg ver s) = Inl (PlainError ''command failed: git'') \<and>
               spawned (snd (createTag rt dir cfg ver s)) = spawned s @ [?call]"
    if "spawn rt (spawned s) ?call = LaunchError"
  proof -
    from run_launch_failure [OF that] first have "r = Inl (PlainError ''command failed: git'')"
      by simp
    with first sp1 show ?thesis by (simp add: createTag_def Let_def)
  qed
  have cont': "createTag rt dir cfg ver s =
        and_then (run rt dir ''git'' ?a1 (snd (run rt dir ''git'' ?args s))) (\<lambda>_ s2.
        and_then (run rt dir ''git'' ?a2 s2) (\<lambda>_ s3.
        and_then (run rt dir ''git'' ?a3 s3) (\<lambda>_ s4.
        and_then (run rt dir ''git'' ?a4 s4) (\<lambda>_ s5.
           (Inr (), console_log (''Tag has been created successfully: '' @ ?tag) s5)))))"
    if "spawn rt (spawned s) ?call = Exit (Some 1) err"
    using cont [OF that] first by simp
  show ?thesis
  proof (intro conjI impI)
    show "\<exists>more. spawned (snd (createTag rt dir cfg ver s)) = spawned s @ [?call, ?c1] @ more"
      if "spawn rt (spawned s) ?call = Exit (Some 1) err"
      using that by (rule one)
    show "fst (createTag rt dir cfg ver s) = Inl (ExitError code)"
      and "spawned (snd (createTag rt dir cfg ver s)) = spawned s @ [?call]"
      if "spawn rt (spawned s) ?call = Exit code err" and "code \<noteq> Some 0" and "code \<noteq> Some 1"
      using other [OF that] by simp_all
    show "fst (createTag rt dir cfg ver s) = Inl (PlainError ''command failed: git'')"
      and "spawned (snd (createTag rt dir cfg ver s)) = spawned s @ [?call]"
      if "spawn rt (spawned s) ?call = LaunchError"
      using launch [OF that] by simp_all
    show "createTag rt dir cfg ver s =
        and_then (run rt dir ''git'' ?a1 (snd (run rt dir ''git'' ?args s))) (\<lambda>_ s2.
        and_then (run rt dir ''git'' ?a2 s2) (\<lambda>_ s3.
        and_then (run rt dir ''git'' ?a3 s3) (\<lambda>_ s4.
        and_then (run rt dir ''git'' ?a4 s4) (\<lambda>_ s5.
           (Inr (), console_log (''Tag has been created successfully: '' @ ?tag) s5)))))"
      if "spawn rt (spawned s) ?call = Exit (Some 1) err"
      using that by (rule cont')
    show "fst (createTag rt dir cfg ver s) = Inr ()"
      and "spawned (snd (createTag rt dir cfg ver s)) = spawned s @ [?call, ?c1, ?c2, ?c3, ?c4]"
      and "last (console (snd (createTag rt dir cfg ver s))) =
        Log (''Tag has been created successfully: '' @ ?tag)"
      if "spawn rt (spawned s) ?call = Exit (Some 1) err"
        and "spawn rt (spawned s @ [?call]) ?c1 = Exit (Some 0) e1"
        and "spawn rt (spawned s @ [?call, ?c1]) ?c2 = Exit (Some 0) e2"
        and "spawn rt (spawned s @ [?call, ?c1, ?c2]) ?c3 = Exit (Some 0) e3"
        and "spawn rt (spawned s @ [?call, ?c1, ?c2, ?c3]) ?c4 = Exit (Some 0) e4"
      using all [OF that] by simp_all
  qed
qed

theorem rev_parse_exit_code_one_witness:
  "fst (createTag sample_runtime ''/github/workspace'' sample_config ''1.2.3'' initial) = Inr () \<and>
   spawned (snd (createTag sample_runtime ''/github/workspace'' sample_config ''1.2.3'' initial))
     = [\<lparr>inv_cwd = ''/github/workspace'', inv_command = ''git'',
         inv_args = [''rev-parse'', ''-q'', ''--verify'', ''refs/tags/v1.2.3'']\<rparr>,
        \<lparr>inv_cwd = ''/github/workspace'', inv_command = ''git'',
         inv_args = [''config'', ''user.name'', ''octocat'']\<rparr>,
        \<lparr>inv_cwd = ''/github/workspace'', inv_command = ''git'',
         inv_args = [''config'', ''user.email'', ''octocat@example.com'']\<rparr>,
        \<lparr>inv_cwd = ''/github/workspace'', inv_command = ''git'',
         inv_args = [''tag'', ''-a'', ''-m'', ''v1.2.3'', ''v1.2.3'']\<rparr>,
        \<lparr>inv_cwd = ''/github/workspace'', inv_command = ''git'',
         inv_args = [''push'', ''origin'', ''refs/tags/v1.2.3'']\<rparr>] \<and>
   fst (createTag (sample_runtime\<lparr>spawn := constant_spawn 128 ''fatal: not a git repository''\<rparr>)
          ''/github/workspace'' sample_config ''1.2.3'' initial) = Inl (ExitError (Some 128)) \<and>
   fst (createTag (sample_runtime\<lparr>spawn := launch_failure\<rparr>)
          ''/github/workspace'' sample_config ''1.2.3'' initial)
     = Inl (PlainError ''command failed: git'')"
proof -
  have tag: "replace_placeholder (tagName sample_config) ''1.2.3'' = ''v1.2.3''"
    "replace_placeholder (tagMessage sample_config) ''1.2.3'' = ''v1.2.3''"
    by (simp_all add: sample_config_def replace_placeholder_def)
  have who: "name (tagAuthor sample_config) = ''octocat''"
    "email (tagAuthor sample_config) = ''octocat@example.com''"
    by (simp_all add: sample_config_def)
  have sp: "spawn sample_runtime = sample_spawn" by (simp add: sample_runtime_def)
  have 1: "fst (createTag sample_runtime ''/github/workspace'' sample_config ''1.2.3'' initial) = Inr () \<and>
   spawned (snd (createTag sample_runtime ''/github/workspace'' sample_config ''1.2.3'' initial))
     = [\<lparr>inv_cwd = ''/github/workspace'', inv_command = ''git'',
         inv_args = [''rev-parse'', ''-q'', ''--verify'', ''refs/tags/v1.2.3'']\<rparr>,
        \<lparr>inv_cwd = ''/github/workspace'', inv_command = ''git'',
         inv_args = [''config'', ''user.name'', ''octocat'']\<rparr>,
        \<lparr>inv_cwd = ''/github/workspace'', inv_command = ''git'',
         inv_args = [''config'', ''user.email'', ''octocat@example.com'']\<rparr>,
        \<lparr>inv_cwd = ''/github/workspace'', inv_command = ''git'',
         inv_args = [''tag'', ''-a'', ''-m'', ''v1.2.3'', ''v1.2.3'']\<rparr>,
        \<lparr>inv_cwd = ''/github/workspace'', inv_command = ''git'',
         inv_args = [''push'', ''origin'', ''refs/tags/v1.2.3'']\<rparr>]"
    using rev_parse_exit_code_one [where rt = sample_runtime and s = initial
        and dir = "''/github/workspace''" and cfg = sample_config and ver = "''1.2.3''"
        and err = "[]" and ?e1.0 = "[]" and ?e2.0 = "[]" and ?e3.0 = "[]" and ?e4.0 = "[]",
        THEN conjunct2, THEN conjunct2, THEN conjunct2, THEN conjunct2]
    by (simp add: tag who sp sample_spawn_def initial_def)
  have 2: "fst (createTag (sample_runtime\<lparr>spawn := constant_spawn 128 ''fatal: not a git repository''\<rparr>)
          ''/github/workspace'' sample_config ''1.2.3'' initial) = Inl (ExitError (Some 128))"
    using rev_parse_exit_code_one
      [where rt = "sample_runtime\<lparr>spawn := constant_spawn 128 ''fatal: not a git repository''\<rparr>"
        and s = initial and dir = "''/github/workspace''" and cfg = sample_config
        and ver = "''1.2.3''" and err = "''fatal: not a git repository''" and code = "Some 128"]
    by (simp add: constant_spawn_def)
  have 3: "fst (createTag (sample_runtime\<lparr>spawn := launch_failure\<rparr>)
          ''/github/workspace'' sample_config ''1.2.3'' initial)
     = Inl (PlainError ''command failed: git'')"
    using rev_parse_exit_code_one
      [where rt = "sample_runtime\<lparr>spawn := launch_failure\<rparr>" and s = initial
        and dir = "''/github/workspace''" and cfg = sample_config and ver = "''1.2.3''"]
    by (simp add: launch_failure_def)
  from 1 2 3 show ?thesis by simp
qed

end
